theory Spec2Isabelle
  imports Main "HOL-Library.Word"
begin

unbundle bit_operations_syntax

section \<open>Bit Shift Assembler (bs9.c): a shallow embedding\<close>

text \<open>
  The assembler keeps its whole state in global variables. The embedding gathers the
  globals that the modelled functions read or write into one record and passes it
  explicitly. C strings are \<open>string\<close> values without the terminating NUL, so
  \<open>*p == 0\<close> is \<open>p = []\<close>. A C \<open>int\<close> is modelled as \<open>int\<close>; the arithmetic
  of the expression evaluator wraps at 32 bits (\<open>int32\<close>), as the compiled code
  does. Every \<open>exit(1)\<close> of the source is an \<open>Inl\<close> result.
\<close>

subsection \<open>Errors\<close>

datatype error =
    Overwrite int              \<comment> \<open>Tried to overwrite address\<close>
  | TooManyIfs                 \<comment> \<open>More than 10 IF or IFDEF conditions nested\<close>
  | EndifWithoutIf             \<comment> \<open>endif without if\<close>
  | UserError string           \<comment> \<open>the error directive\<close>
  | MissingEndif int           \<comment> \<open>Error in conditional assembly, before pass 2\<close>
  | IllegalOperand             \<comment> \<open>Illegal operand\<close>
  | OperatorExpected           \<comment> \<open>Syntax error: binary operator expected\<close>
  | MissingClosing char        \<comment> \<open>Missing closing bracket or parenthesis\<close>
  | DecimalConstant            \<comment> \<open>Wrong decimal constant / Illegal character\<close>
  | CharDelimiter              \<comment> \<open>Missing ' delimiter after character operand\<close>
  | TooManyLabels              \<comment> \<open>Too many labels\<close>
  | ReservedWord string        \<comment> \<open>Use of reserved mnemonic or keyword\<close>
  | OperandError               \<comment> \<open>Syntax error in operand\<close>
  | EmptyOperand               \<comment> \<open>Empty operand\<close>
  | ExtraText                  \<comment> \<open>Extra text after operand\<close>
  | UndefinedPC                \<comment> \<open>Undefined program counter (PC)\<close>
  | ImmediateSyntax            \<comment> \<open>immediate-to-memory operand syntax\<close>
  | MissingOperand             \<comment> \<open>Missing operand\<close>
  | Apostrophe                 \<comment> \<open>Operand cannot start with apostrophe\<close>
  | MissingComma               \<comment> \<open>Missing comma\<close>
  | IllegalIncDec              \<comment> \<open>Illegal increment/decrement combination\<close>
  | MixedRegisters             \<comment> \<open>mixing register of different sizes\<close>
  | UnknownRegister            \<comment> \<open>Unknown register name or wrong CPU set\<close>
  | UndefinedBranch            \<comment> \<open>Branch to undefined label\<close>
  | BranchRange int            \<comment> \<open>Short Branch out of range\<close>
  | IllegalInstruction         \<comment> \<open>Illegal (immediate/indexed/bit) instruction\<close>
  | UndefinedImmediate         \<comment> \<open>Undefined immediate value\<close>
  | ImmediateRange int         \<comment> \<open>Immediate value out of range\<close>
  | MissingBracket             \<comment> \<open>Missing closing bracket ]\<close>
  | IllegalRegisterName        \<comment> \<open>Illegal register name\<close>
  | PhaseError                 \<comment> \<open>Phase error\<close>
  | UndefinedLabel             \<comment> \<open>Use of an undefined label\<close>
  | ValueRange                 \<comment> \<open>8 or 16 bit address/value out of range\<close>
  | StoreSyntax                \<comment> \<open>the fatal messages of the STORE directive\<close>
  | TooManyStores              \<comment> \<open>number of storage files exceeds SFMAX\<close>
  | IllegalBit                 \<comment> \<open>Illegal bit number, register or syntax in a bit operation\<close>
  | SyntaxError                \<comment> \<open>Syntax error\<close>
  | PCOverflow                 \<comment> \<open>Program counter overflow\<close>
  | OutOfFuel                  \<comment> \<open>the recursion bound of the embedding was too small\<close>
  | Unmodelled                 \<comment> \<open>undefined behaviour of C, or a path outside this embedding\<close>

definition ebind :: "error + 'a \<Rightarrow> ('a \<Rightarrow> error + 'b) \<Rightarrow> error + 'b" where
  "ebind m f = (case m of Inl e \<Rightarrow> Inl e | Inr x \<Rightarrow> f x)"

subsection \<open>Characters and strings (ctype.h and the string helpers)\<close>

definition toupper :: "char \<Rightarrow> char" where
  "toupper c =
     (case map_of
        [(CHR ''a'', CHR ''A''), (CHR ''b'', CHR ''B''), (CHR ''c'', CHR ''C''), (CHR ''d'', CHR ''D''),
         (CHR ''e'', CHR ''E''), (CHR ''f'', CHR ''F''), (CHR ''g'', CHR ''G''), (CHR ''h'', CHR ''H''),
         (CHR ''i'', CHR ''I''), (CHR ''j'', CHR ''J''), (CHR ''k'', CHR ''K''), (CHR ''l'', CHR ''L''),
         (CHR ''m'', CHR ''M''), (CHR ''n'', CHR ''N''), (CHR ''o'', CHR ''O''), (CHR ''p'', CHR ''P''),
         (CHR ''q'', CHR ''Q''), (CHR ''r'', CHR ''R''), (CHR ''s'', CHR ''S''), (CHR ''t'', CHR ''T''),
         (CHR ''u'', CHR ''U''), (CHR ''v'', CHR ''V''), (CHR ''w'', CHR ''W''), (CHR ''x'', CHR ''X''),
         (CHR ''y'', CHR ''Y''), (CHR ''z'', CHR ''Z'')] c of
        Some u \<Rightarrow> u | None \<Rightarrow> c)"

definition isdigit :: "char \<Rightarrow> bool" where
  "isdigit c = (c \<in> set ''0123456789'')"

definition isxdigit :: "char \<Rightarrow> bool" where
  "isxdigit c = (c \<in> set ''0123456789abcdefABCDEF'')"

definition isalpha :: "char \<Rightarrow> bool" where
  "isalpha c =
     (c \<in> set ''abcdefghijklmnopqrstuvwxyzABCDEFGHIJKLMNOPQRSTUVWXYZ'')"

definition isalnum :: "char \<Rightarrow> bool" where
  "isalnum c = (isalpha c \<or> isdigit c)"

definition isspace :: "char \<Rightarrow> bool" where
  "isspace c = (c \<in> {CHR '' '', CHR 0x09, CHR 0x0A, CHR 0x0B, CHR 0x0C, CHR 0x0D})"

definition isym :: "char \<Rightarrow> bool" where
  "isym c = (c = CHR ''.'' \<or> c = CHR ''$'' \<or> c = CHR ''_'' \<or> isalnum c)"

text \<open>\<open>s[i]\<close> of a C string, where the terminator reads as NUL.\<close>

definition chr_at :: "string \<Rightarrow> nat \<Rightarrow> char" where
  "chr_at s i = (if i < length s then s ! i else CHR 0x00)"

definition SkipSpace :: "string \<Rightarrow> string" where
  "SkipSpace p = dropWhile isspace p"

definition NeedChar :: "string \<Rightarrow> char \<Rightarrow> string option" where
  "NeedChar p c =
     (case SkipSpace p of [] \<Rightarrow> None | x # xs \<Rightarrow> if x = c then Some (x # xs) else None)"

text \<open>
  \<open>StrNCaseCmp a b n\<close> compares at most \<open>n\<close> characters, the terminators included,
  ignoring case. Only whether the result is 0 is ever used.
\<close>

fun StrNCaseCmp :: "string \<Rightarrow> string \<Rightarrow> nat \<Rightarrow> int" where
  "StrNCaseCmp a b 0 = 0"
| "StrNCaseCmp [] [] (Suc n) = 0"
| "StrNCaseCmp [] (y # ys) (Suc n) = - 1"
| "StrNCaseCmp (x # xs) [] (Suc n) = 1"
| "StrNCaseCmp (x # xs) (y # ys) (Suc n) =
     (if of_char (toupper x) < (of_char (toupper y) :: nat) then - 1
      else if of_char (toupper x) > (of_char (toupper y) :: nat) then 1
      else StrNCaseCmp xs ys n)"

definition StrCaseCmp :: "string \<Rightarrow> string \<Rightarrow> int" where
  "StrCaseCmp a b = StrNCaseCmp a b (Suc (min (length a) (length b)))"

definition strcmpword :: "string \<Rightarrow> string \<Rightarrow> int" where
  "strcmpword s1 s2 =
     (let l = length s2; r = StrNCaseCmp s1 s2 l
      in if r = 0 \<and> isym (chr_at s1 l) then 1 else r)"

subsection \<open>The assembler state\<close>

definition UNDEF :: int where
  "UNDEF = 0xff0000"

definition ERRMAX :: int where
  "ERRMAX = 10"

definition SFMAX :: nat where
  "SFMAX = 20"

definition MAXLAB :: nat where
  "MAXLAB = 8000"

datatype OutfileFormat = BINARY | SRECORD

record label =
  Name :: string
  Address :: int
  Bytes :: int

record store_req =
  SFA :: int
  SFL :: int
  SFF :: string
  SFE :: int
  SFT :: OutfileFormat

record asm =
  ROM :: "int \<Rightarrow> int"
  LOCK :: "int \<Rightarrow> int"
  ADL :: "int \<Rightarrow> int"
  ErrNum :: int
  Phase :: int
  pc :: int
  oc :: int
  pb :: int
  il :: int
  ol :: int
  ql :: int
  nops :: int
  Optimize :: int
  ForcedMode :: int
  DP :: int
  CodeStyle :: int
  IgnoreCase :: int
  IfLevel :: int
  Skipping :: int
  SkipLine :: "int \<Rightarrow> int"
  lab :: "label list"
  minlab :: "int \<Rightarrow> int"
  plucnt :: "int \<Rightarrow> int"
  plulab :: "int \<Rightarrow> int \<Rightarrow> int"
  Stores :: "store_req list"
  Scope :: string
  DimOp :: nat
  RegisterNames :: "string list"
  ForcedEnd :: int
  MneIndex :: int

text \<open>
  The state at program start: zeroed globals (so \<open>MneIndex = 0\<close>), \<open>pc = -1\<close>, no
  symbols.
\<close>

definition Register_6309 :: "string list" where
  "Register_6309 =
    [''D'', ''X'', ''Y'', ''U'', ''S'', ''PC'', ''W'', ''V'', ''A'', ''B'', ''CC'', ''DP'', ''*'', ''0'',
     ''E'', ''F'']"

definition asm0 :: asm where
  "asm0 = \<lparr> ROM = (\<lambda>_. 0), LOCK = (\<lambda>_. 0), ADL = (\<lambda>_. 0), ErrNum = 0, Phase = 0,
     pc = - 1, oc = 0, pb = 0, il = 0, ol = 0, ql = 0, nops = 0, Optimize = 0,
     ForcedMode = 0, DP = 0, CodeStyle = 0, IgnoreCase = 0, IfLevel = 0, Skipping = 0,
     SkipLine = (\<lambda>_. 0), lab = [], minlab = (\<lambda>_. 0), plucnt = (\<lambda>_. 0),
     plulab = (\<lambda>_ _. 0), Stores = [], Scope = [], DimOp = 224,
     RegisterNames = Register_6309, ForcedEnd = 0, MneIndex = 0 \<rparr>"

subsection \<open>The tables of mnemonics and pseudo-ops\<close>

text \<open>
  \<open>Mat\<close>: mnemonic and the eight \<open>Opc\<close> entries (CPU tag, then the opcode for the
  modes Inherent, Register, Relative, Immediate, Direct, Indexed, Extended; -1 where
  the mode does not exist).
\<close>

definition AM_Inherent :: nat where "AM_Inherent = 1"
definition AM_Register :: nat where "AM_Register = 2"
definition AM_Relative :: nat where "AM_Relative = 3"
definition AM_Immediate :: nat where "AM_Immediate = 4"
definition AM_Direct :: nat where "AM_Direct = 5"
definition AM_Indexed :: nat where "AM_Indexed = 6"
definition AM_Extended :: nat where "AM_Extended = 7"

type_synonym mat_row = "string \<times> int list"

definition Mat :: "mat_row list" where
  "Mat =
    [(''NEG'', [0, - 1, - 1, - 1, - 1, 0, 0x60, 0x70]),
     (''COM'', [0, - 1, - 1, - 1, - 1, 3, 0x63, 0x73]),
     (''LSR'', [0, - 1, - 1, - 1, - 1, 4, 0x64, 0x74]),
     (''ROR'', [0, - 1, - 1, - 1, - 1, 6, 0x66, 0x76]),
     (''ASR'', [0, - 1, - 1, - 1, - 1, 7, 0x67, 0x77]),
     (''ASL'', [0, - 1, - 1, - 1, - 1, 8, 0x68, 0x78]),
     (''LSL'', [0, - 1, - 1, - 1, - 1, 8, 0x68, 0x78]),
     (''ROL'', [0, - 1, - 1, - 1, - 1, 9, 0x69, 0x79]),
     (''DEC'', [0, - 1, - 1, - 1, - 1, 0xA, 0x6A, 0x7A]),
     (''INC'', [0, - 1, - 1, - 1, - 1, 0xC, 0x6C, 0x7C]),
     (''TST'', [0, - 1, - 1, - 1, - 1, 0xD, 0x6D, 0x7D]),
     (''JMP'', [0, - 1, - 1, - 1, - 1, 0xE, 0x6E, 0x7E]),
     (''CLR'', [0, - 1, - 1, - 1, - 1, 0xF, 0x6F, 0x7F]),
     (''NOP'', [0, 0x12, - 1, - 1, - 1, - 1, - 1, - 1]),
     (''SYNC'', [0, 0x13, - 1, - 1, - 1, - 1, - 1, - 1]),
     (''LBRA'', [0, - 1, - 1, 0x16, - 1, - 1, - 1, - 1]),
     (''LBSR'', [0, - 1, - 1, 0x17, - 1, - 1, - 1, - 1]),
     (''DAA'', [0, 0x19, - 1, - 1, - 1, - 1, - 1, - 1]),
     (''ORCC'', [0, - 1, - 1, - 1, 0x1A, - 1, - 1, - 1]),
     (''ANDCC'', [0, - 1, - 1, - 1, 0x1C, - 1, - 1, - 1]),
     (''SEX'', [0, 0x1D, - 1, - 1, - 1, - 1, - 1, - 1]),
     (''EXG'', [0, - 1, 0x1E, - 1, - 1, - 1, - 1, - 1]),
     (''TFR'', [0, - 1, 0x1F, - 1, - 1, - 1, - 1, - 1]),
     (''BRA'', [0, - 1, - 1, 0x20, - 1, - 1, - 1, - 1]),
     (''BRN'', [0, - 1, - 1, 0x21, - 1, - 1, - 1, - 1]),
     (''BHI'', [0, - 1, - 1, 0x22, - 1, - 1, - 1, - 1]),
     (''BLS'', [0, - 1, - 1, 0x23, - 1, - 1, - 1, - 1]),
     (''BCC'', [0, - 1, - 1, 0x24, - 1, - 1, - 1, - 1]),
     (''BHS'', [0, - 1, - 1, 0x24, - 1, - 1, - 1, - 1]),
     (''BCS'', [0, - 1, - 1, 0x25, - 1, - 1, - 1, - 1]),
     (''BLO'', [0, - 1, - 1, 0x25, - 1, - 1, - 1, - 1]),
     (''BNE'', [0, - 1, - 1, 0x26, - 1, - 1, - 1, - 1]),
     (''BEQ'', [0, - 1, - 1, 0x27, - 1, - 1, - 1, - 1]),
     (''BVC'', [0, - 1, - 1, 0x28, - 1, - 1, - 1, - 1]),
     (''BVS'', [0, - 1, - 1, 0x29, - 1, - 1, - 1, - 1]),
     (''BPL'', [0, - 1, - 1, 0x2A, - 1, - 1, - 1, - 1]),
     (''BMI'', [0, - 1, - 1, 0x2B, - 1, - 1, - 1, - 1]),
     (''BGE'', [0, - 1, - 1, 0x2C, - 1, - 1, - 1, - 1]),
     (''BLT'', [0, - 1, - 1, 0x2D, - 1, - 1, - 1, - 1]),
     (''BGT'', [0, - 1, - 1, 0x2E, - 1, - 1, - 1, - 1]),
     (''BLE'', [0, - 1, - 1, 0x2F, - 1, - 1, - 1, - 1]),
     (''LEAX'', [0, - 1, - 1, - 1, - 1, - 1, 0x30, - 1]),
     (''LEAY'', [0, - 1, - 1, - 1, - 1, - 1, 0x31, - 1]),
     (''LEAS'', [0, - 1, - 1, - 1, - 1, - 1, 0x32, - 1]),
     (''LEAU'', [0, - 1, - 1, - 1, - 1, - 1, 0x33, - 1]),
     (''PSHS'', [0, - 1, 0x34, - 1, - 1, - 1, - 1, - 1]),
     (''PULS'', [0, - 1, 0x35, - 1, - 1, - 1, - 1, - 1]),
     (''PSHU'', [0, - 1, 0x36, - 1, - 1, - 1, - 1, - 1]),
     (''PULU'', [0, - 1, 0x37, - 1, - 1, - 1, - 1, - 1]),
     (''RTS'', [0, 0x39, - 1, - 1, - 1, - 1, - 1, - 1]),
     (''ABX'', [0, 0x3A, - 1, - 1, - 1, - 1, - 1, - 1]),
     (''RTI'', [0, 0x3B, - 1, - 1, - 1, - 1, - 1, - 1]),
     (''CWAI'', [0, - 1, - 1, - 1, 0x3C, - 1, - 1, - 1]),
     (''MUL'', [0, 0x3D, - 1, - 1, - 1, - 1, - 1, - 1]),
     (''RESET'', [0, 0x3E, - 1, - 1, - 1, - 1, - 1, - 1]),
     (''SWI'', [0, 0x3F, - 1, - 1, - 1, - 1, - 1, - 1]),
     (''NEGA'', [0, 0x40, - 1, - 1, - 1, - 1, - 1, - 1]),
     (''COMA'', [0, 0x43, - 1, - 1, - 1, - 1, - 1, - 1]),
     (''LSRA'', [0, 0x44, - 1, - 1, - 1, - 1, - 1, - 1]),
     (''RORA'', [0, 0x46, - 1, - 1, - 1, - 1, - 1, - 1]),
     (''ASRA'', [0, 0x47, - 1, - 1, - 1, - 1, - 1, - 1]),
     (''ASLA'', [0, 0x48, - 1, - 1, - 1, - 1, - 1, - 1]),
     (''LSLA'', [0, 0x48, - 1, - 1, - 1, - 1, - 1, - 1]),
     (''ROLA'', [0, 0x49, - 1, - 1, - 1, - 1, - 1, - 1]),
     (''DECA'', [0, 0x4A, - 1, - 1, - 1, - 1, - 1, - 1]),
     (''INCA'', [0, 0x4C, - 1, - 1, - 1, - 1, - 1, - 1]),
     (''TSTA'', [0, 0x4D, - 1, - 1, - 1, - 1, - 1, - 1]),
     (''CLRA'', [0, 0x4F, - 1, - 1, - 1, - 1, - 1, - 1]),
     (''NEGB'', [0, 0x50, - 1, - 1, - 1, - 1, - 1, - 1]),
     (''COMB'', [0, 0x53, - 1, - 1, - 1, - 1, - 1, - 1]),
     (''LSRB'', [0, 0x54, - 1, - 1, - 1, - 1, - 1, - 1]),
     (''RORB'', [0, 0x56, - 1, - 1, - 1, - 1, - 1, - 1]),
     (''ASRB'', [0, 0x57, - 1, - 1, - 1, - 1, - 1, - 1]),
     (''ASLB'', [0, 0x58, - 1, - 1, - 1, - 1, - 1, - 1]),
     (''LSLB'', [0, 0x58, - 1, - 1, - 1, - 1, - 1, - 1]),
     (''ROLB'', [0, 0x59, - 1, - 1, - 1, - 1, - 1, - 1]),
     (''DECB'', [0, 0x5A, - 1, - 1, - 1, - 1, - 1, - 1]),
     (''INCB'', [0, 0x5C, - 1, - 1, - 1, - 1, - 1, - 1]),
     (''TSTB'', [0, 0x5D, - 1, - 1, - 1, - 1, - 1, - 1]),
     (''CLRB'', [0, 0x5F, - 1, - 1, - 1, - 1, - 1, - 1]),
     (''SUBA'', [0, - 1, - 1, - 1, 0x80, 0x90, 0xA0, 0xB0]),
     (''CMPA'', [0, - 1, - 1, - 1, 0x81, 0x91, 0xA1, 0xB1]),
     (''SBCA'', [0, - 1, - 1, - 1, 0x82, 0x92, 0xA2, 0xB2]),
     (''SUBD'', [0, - 1, - 1, - 1, 0x83, 0x93, 0xA3, 0xB3]),
     (''ANDA'', [0, - 1, - 1, - 1, 0x84, 0x94, 0xA4, 0xB4]),
     (''BITA'', [0, - 1, - 1, - 1, 0x85, 0x95, 0xA5, 0xB5]),
     (''LDA'', [0, - 1, - 1, - 1, 0x86, 0x96, 0xA6, 0xB6]),
     (''EORA'', [0, - 1, - 1, - 1, 0x88, 0x98, 0xA8, 0xB8]),
     (''ADCA'', [0, - 1, - 1, - 1, 0x89, 0x99, 0xA9, 0xB9]),
     (''ORA'', [0, - 1, - 1, - 1, 0x8A, 0x9A, 0xAA, 0xBA]),
     (''ADDA'', [0, - 1, - 1, - 1, 0x8B, 0x9B, 0xAB, 0xBB]),
     (''CMPX'', [0, - 1, - 1, - 1, 0x8C, 0x9C, 0xAC, 0xBC]),
     (''BSR'', [0, - 1, - 1, 0x8D, - 1, - 1, - 1, - 1]),
     (''LDX'', [0, - 1, - 1, - 1, 0x8E, 0x9E, 0xAE, 0xBE]),
     (''STA'', [0, - 1, - 1, - 1, - 1, 0x97, 0xA7, 0xB7]),
     (''JSR'', [0, - 1, - 1, - 1, - 1, 0x9D, 0xAD, 0xBD]),
     (''STX'', [0, - 1, - 1, - 1, - 1, 0x9F, 0xAF, 0xBF]),
     (''SUBB'', [0, - 1, - 1, - 1, 0xC0, 0xD0, 0xE0, 0xF0]),
     (''CMPB'', [0, - 1, - 1, - 1, 0xC1, 0xD1, 0xE1, 0xF1]),
     (''SBCB'', [0, - 1, - 1, - 1, 0xC2, 0xD2, 0xE2, 0xF2]),
     (''ADDD'', [0, - 1, - 1, - 1, 0xC3, 0xD3, 0xE3, 0xF3]),
     (''ANDB'', [0, - 1, - 1, - 1, 0xC4, 0xD4, 0xE4, 0xF4]),
     (''BITB'', [0, - 1, - 1, - 1, 0xC5, 0xD5, 0xE5, 0xF5]),
     (''LDB'', [0, - 1, - 1, - 1, 0xC6, 0xD6, 0xE6, 0xF6]),
     (''EORB'', [0, - 1, - 1, - 1, 0xC8, 0xD8, 0xE8, 0xF8]),
     (''ADCB'', [0, - 1, - 1, - 1, 0xC9, 0xD9, 0xE9, 0xF9]),
     (''ORB'', [0, - 1, - 1, - 1, 0xCA, 0xDA, 0xEA, 0xFA]),
     (''ADDB'', [0, - 1, - 1, - 1, 0xCB, 0xDB, 0xEB, 0xFB]),
     (''LDD'', [0, - 1, - 1, - 1, 0xCC, 0xDC, 0xEC, 0xFC]),
     (''LDU'', [0, - 1, - 1, - 1, 0xCE, 0xDE, 0xEE, 0xFE]),
     (''STB'', [0, - 1, - 1, - 1, - 1, 0xD7, 0xE7, 0xF7]),
     (''STD'', [0, - 1, - 1, - 1, - 1, 0xDD, 0xED, 0xFD]),
     (''STU'', [0, - 1, - 1, - 1, - 1, 0xDF, 0xEF, 0xFF]),
     (''LBRN'', [0, - 1, - 1, 0x1021, - 1, - 1, - 1, - 1]),
     (''LBHI'', [0, - 1, - 1, 0x1022, - 1, - 1, - 1, - 1]),
     (''LBLS'', [0, - 1, - 1, 0x1023, - 1, - 1, - 1, - 1]),
     (''LBCC'', [0, - 1, - 1, 0x1024, - 1, - 1, - 1, - 1]),
     (''LBHS'', [0, - 1, - 1, 0x1024, - 1, - 1, - 1, - 1]),
     (''LBCS'', [0, - 1, - 1, 0x1025, - 1, - 1, - 1, - 1]),
     (''LBLO'', [0, - 1, - 1, 0x1025, - 1, - 1, - 1, - 1]),
     (''LBNE'', [0, - 1, - 1, 0x1026, - 1, - 1, - 1, - 1]),
     (''LBEQ'', [0, - 1, - 1, 0x1027, - 1, - 1, - 1, - 1]),
     (''LBVC'', [0, - 1, - 1, 0x1028, - 1, - 1, - 1, - 1]),
     (''LBVS'', [0, - 1, - 1, 0x1029, - 1, - 1, - 1, - 1]),
     (''LBPL'', [0, - 1, - 1, 0x102A, - 1, - 1, - 1, - 1]),
     (''LBMI'', [0, - 1, - 1, 0x102B, - 1, - 1, - 1, - 1]),
     (''LBGE'', [0, - 1, - 1, 0x102C, - 1, - 1, - 1, - 1]),
     (''LBLT'', [0, - 1, - 1, 0x102D, - 1, - 1, - 1, - 1]),
     (''LBGT'', [0, - 1, - 1, 0x102E, - 1, - 1, - 1, - 1]),
     (''LBLE'', [0, - 1, - 1, 0x102F, - 1, - 1, - 1, - 1]),
     (''SWI2'', [0, 0x103F, - 1, - 1, - 1, - 1, - 1, - 1]),
     (''CMPD'', [0, - 1, - 1, - 1, 0x1083, 0x1093, 0x10A3, 0x10B3]),
     (''CMPY'', [0, - 1, - 1, - 1, 0x108C, 0x109C, 0x10AC, 0x10BC]),
     (''LDY'', [0, - 1, - 1, - 1, 0x108E, 0x109E, 0x10AE, 0x10BE]),
     (''STY'', [0, - 1, - 1, - 1, - 1, 0x109F, 0x10AF, 0x10BF]),
     (''LDS'', [0, - 1, - 1, - 1, 0x10CE, 0x10DE, 0x10EE, 0x10FE]),
     (''STS'', [0, - 1, - 1, - 1, - 1, 0x10DF, 0x10EF, 0x10FF]),
     (''SWI3'', [0, 0x113F, - 1, - 1, - 1, - 1, - 1, - 1]),
     (''CMPU'', [0, - 1, - 1, - 1, 0x1183, 0x1193, 0x11A3, 0x11B3]),
     (''CMPS'', [0, - 1, - 1, - 1, 0x118C, 0x119C, 0x11AC, 0x11BC]),
     (''SEXW'', [1, 0x14, - 1, - 1, - 1, - 1, - 1, - 1]),
     (''ADDR'', [1, - 1, 0x1030, - 1, - 1, - 1, - 1, - 1]),
     (''ADCR'', [1, - 1, 0x1031, - 1, - 1, - 1, - 1, - 1]),
     (''SUBR'', [1, - 1, 0x1032, - 1, - 1, - 1, - 1, - 1]),
     (''SBCR'', [1, - 1, 0x1033, - 1, - 1, - 1, - 1, - 1]),
     (''ANDR'', [1, - 1, 0x1034, - 1, - 1, - 1, - 1, - 1]),
     (''ORR'', [1, - 1, 0x1035, - 1, - 1, - 1, - 1, - 1]),
     (''EORR'', [1, - 1, 0x1036, - 1, - 1, - 1, - 1, - 1]),
     (''CMPR'', [1, - 1, 0x1037, - 1, - 1, - 1, - 1, - 1]),
     (''TFM'', [1, - 1, 0x1138, - 1, - 1, - 1, - 1, - 1]),
     (''BITMD'', [1, - 1, - 1, - 1, 0x113C, - 1, - 1, - 1]),
     (''LDMD'', [1, - 1, - 1, - 1, 0x113D, - 1, - 1, - 1]),
     (''PSHSW'', [1, 0x1038, - 1, - 1, - 1, - 1, - 1, - 1]),
     (''PULSW'', [1, 0x1039, - 1, - 1, - 1, - 1, - 1, - 1]),
     (''PSHUW'', [1, 0x103A, - 1, - 1, - 1, - 1, - 1, - 1]),
     (''PULUW'', [1, 0x103B, - 1, - 1, - 1, - 1, - 1, - 1]),
     (''NEGD'', [1, 0x1040, - 1, - 1, - 1, - 1, - 1, - 1]),
     (''COMD'', [1, 0x1043, - 1, - 1, - 1, - 1, - 1, - 1]),
     (''LSRD'', [1, 0x1044, - 1, - 1, - 1, - 1, - 1, - 1]),
     (''RORD'', [1, 0x1046, - 1, - 1, - 1, - 1, - 1, - 1]),
     (''ASRD'', [1, 0x1047, - 1, - 1, - 1, - 1, - 1, - 1]),
     (''ASLD'', [1, 0x1048, - 1, - 1, - 1, - 1, - 1, - 1]),
     (''LSLD'', [1, 0x1048, - 1, - 1, - 1, - 1, - 1, - 1]),
     (''ROLD'', [1, 0x1049, - 1, - 1, - 1, - 1, - 1, - 1]),
     (''DECD'', [1, 0x104A, - 1, - 1, - 1, - 1, - 1, - 1]),
     (''INCD'', [1, 0x104C, - 1, - 1, - 1, - 1, - 1, - 1]),
     (''TSTD'', [1, 0x104D, - 1, - 1, - 1, - 1, - 1, - 1]),
     (''CLRD'', [1, 0x104F, - 1, - 1, - 1, - 1, - 1, - 1]),
     (''COMW'', [1, 0x1053, - 1, - 1, - 1, - 1, - 1, - 1]),
     (''LSRW'', [1, 0x1054, - 1, - 1, - 1, - 1, - 1, - 1]),
     (''RORW'', [1, 0x1056, - 1, - 1, - 1, - 1, - 1, - 1]),
     (''ROLW'', [1, 0x1059, - 1, - 1, - 1, - 1, - 1, - 1]),
     (''DECW'', [1, 0x105A, - 1, - 1, - 1, - 1, - 1, - 1]),
     (''INCW'', [1, 0x105C, - 1, - 1, - 1, - 1, - 1, - 1]),
     (''TSTW'', [1, 0x105D, - 1, - 1, - 1, - 1, - 1, - 1]),
     (''CLRW'', [1, 0x105F, - 1, - 1, - 1, - 1, - 1, - 1]),
     (''COME'', [1, 0x1143, - 1, - 1, - 1, - 1, - 1, - 1]),
     (''DECE'', [1, 0x114A, - 1, - 1, - 1, - 1, - 1, - 1]),
     (''INCE'', [1, 0x114C, - 1, - 1, - 1, - 1, - 1, - 1]),
     (''TSTE'', [1, 0x114D, - 1, - 1, - 1, - 1, - 1, - 1]),
     (''CLRE'', [1, 0x114F, - 1, - 1, - 1, - 1, - 1, - 1]),
     (''COMF'', [1, 0x1153, - 1, - 1, - 1, - 1, - 1, - 1]),
     (''DECF'', [1, 0x115A, - 1, - 1, - 1, - 1, - 1, - 1]),
     (''INCF'', [1, 0x115C, - 1, - 1, - 1, - 1, - 1, - 1]),
     (''TSTF'', [1, 0x115D, - 1, - 1, - 1, - 1, - 1, - 1]),
     (''CLRF'', [1, 0x115F, - 1, - 1, - 1, - 1, - 1, - 1]),
     (''OIM'', [1, - 1, - 1, - 1, - 1, 1, 0x61, 0x71]),
     (''AIM'', [1, - 1, - 1, - 1, - 1, 2, 0x62, 0x72]),
     (''EIM'', [1, - 1, - 1, - 1, - 1, 5, 0x65, 0x75]),
     (''TIM'', [1, - 1, - 1, - 1, - 1, 0xB, 0x6B, 0x7B]),
     (''STW'', [1, - 1, - 1, - 1, - 1, 0x1097, 0x10A7, 0x10B7]),
     (''STQ'', [1, - 1, - 1, - 1, - 1, 0x10DD, 0x10ED, 0x10FD]),
     (''STE'', [1, - 1, - 1, - 1, - 1, 0x1197, 0x11A7, 0x11B7]),
     (''STF'', [1, - 1, - 1, - 1, - 1, 0x11D7, 0x11E7, 0x11F7]),
     (''LDQ'', [1, - 1, - 1, - 1, 0xCD, 0x10DC, 0x10EC, 0x10FC]),
     (''SUBW'', [1, - 1, - 1, - 1, 0x1080, 0x1090, 0x10A0, 0x10B0]),
     (''CMPW'', [1, - 1, - 1, - 1, 0x1081, 0x1091, 0x10A1, 0x10B1]),
     (''SBCD'', [1, - 1, - 1, - 1, 0x1082, 0x1092, 0x10A2, 0x10B2]),
     (''ANDD'', [1, - 1, - 1, - 1, 0x1084, 0x1094, 0x10A4, 0x10B4]),
     (''BITD'', [1, - 1, - 1, - 1, 0x1085, 0x1095, 0x10A5, 0x10B5]),
     (''LDW'', [1, - 1, - 1, - 1, 0x1086, 0x1096, 0x10A6, 0x10B6]),
     (''EORD'', [1, - 1, - 1, - 1, 0x1088, 0x1098, 0x10A8, 0x10B8]),
     (''ADCD'', [1, - 1, - 1, - 1, 0x1089, 0x1099, 0x10A9, 0x10B9]),
     (''ORD'', [1, - 1, - 1, - 1, 0x108A, 0x109A, 0x10AA, 0x10BA]),
     (''ADDW'', [1, - 1, - 1, - 1, 0x108B, 0x109B, 0x10AB, 0x10BB]),
     (''SUBE'', [1, - 1, - 1, - 1, 0x1180, 0x1190, 0x11A0, 0x11B0]),
     (''CMPE'', [1, - 1, - 1, - 1, 0x1181, 0x1191, 0x11A1, 0x11B1]),
     (''LDE'', [1, - 1, - 1, - 1, 0x1186, 0x1196, 0x11A6, 0x11B6]),
     (''ADDE'', [1, - 1, - 1, - 1, 0x118B, 0x119B, 0x11AB, 0x11BB]),
     (''DIVD'', [1, - 1, - 1, - 1, 0x118D, 0x119D, 0x11AD, 0x11BD]),
     (''DIVQ'', [1, - 1, - 1, - 1, 0x118E, 0x119E, 0x11AE, 0x11BE]),
     (''MULD'', [1, - 1, - 1, - 1, 0x118F, 0x119F, 0x11AF, 0x11BF]),
     (''SUBF'', [1, - 1, - 1, - 1, 0x11C0, 0x11D0, 0x11E0, 0x11F0]),
     (''CMPF'', [1, - 1, - 1, - 1, 0x11C1, 0x11D1, 0x11E1, 0x11F1]),
     (''LDF'', [1, - 1, - 1, - 1, 0x11C6, 0x11D6, 0x11E6, 0x11F6]),
     (''ADDF'', [1, - 1, - 1, - 1, 0x11CB, 0x11DB, 0x11EB, 0x11FB]),
     (''BAND'', [1, - 1, - 1, - 1, - 1, 0x1130, - 1, - 1]),
     (''BIAND'', [1, - 1, - 1, - 1, - 1, 0x1131, - 1, - 1]),
     (''BOR'', [1, - 1, - 1, - 1, - 1, 0x1132, - 1, - 1]),
     (''BIOR'', [1, - 1, - 1, - 1, - 1, 0x1133, - 1, - 1]),
     (''BEOR'', [1, - 1, - 1, - 1, - 1, 0x1134, - 1, - 1]),
     (''BIEOR'', [1, - 1, - 1, - 1, - 1, 0x1135, - 1, - 1]),
     (''LDBT'', [1, - 1, - 1, - 1, - 1, 0x1136, - 1, - 1]),
     (''STBT'', [1, - 1, - 1, - 1, - 1, 0x1137, - 1, - 1])]"

text \<open>The fields \<open>Mne\<close> and \<open>Opc[m]\<close> of a table row.\<close>

definition Mne :: "mat_row \<Rightarrow> string" where
  "Mne row = fst row"

definition Opc :: "mat_row \<Rightarrow> nat \<Rightarrow> int" where
  "Opc row m = snd row ! m"

definition PseudoTab :: "string list" where
  "PseudoTab =
    [''ALIGN'', ''BITS'', ''BSS'', ''BYTE'', ''C5TO3'', ''CASE'', ''CMAP'', ''CPU'', ''END'',
     ''ENDMOD'', ''ENDSUB'', ''EXTERN'', ''FCB'', ''FCC'', ''FDB'', ''FILL'', ''FORMLN'',
     ''INCLUDE'', ''INTERN'', ''LIST'', ''LOAD'', ''LONG'', ''MODULE'', ''ORG'', ''RMB'',
     ''REAL'', ''SECT'', ''SETDP'', ''SIZE'', ''STORE'', ''SUBROUTINE'', ''TTL'', ''WORD'']"

text \<open>
  \<open>IsInstruction\<close>: the index of the first of the \<open>DimOp\<close> table rows whose
  mnemonic is the word at \<open>p\<close>.
\<close>

fun find_mne :: "string \<Rightarrow> mat_row list \<Rightarrow> nat \<Rightarrow> nat option" where
  "find_mne p [] i = None"
| "find_mne p (row # rows) i =
     (if StrNCaseCmp p (Mne row) (length (Mne row)) = 0 \<and> \<not> isym (chr_at p (length (Mne row)))
      then Some i else find_mne p rows (Suc i))"

definition IsInstruction :: "asm \<Rightarrow> string \<Rightarrow> nat option" where
  "IsInstruction s p = find_mne p (take (DimOp s) Mat) 0"

subsection \<open>Put: store code or data into the ROM array\<close>

text \<open>
  The third argument of the source only positions the error caret and is dropped.
\<close>

definition Put :: "int \<Rightarrow> int \<Rightarrow> asm \<Rightarrow> error + asm" where
  "Put i v s =
     (let v' = v AND 0xff
      in if LOCK s i \<noteq> 0 \<and> ROM s i \<noteq> v' then Inl (Overwrite i)
         else Inr (s\<lparr>ROM := (ROM s)(i := v'), LOCK := (LOCK s)(i := 1)\<rparr>))"

subsection \<open>Binary operators of the expression evaluator\<close>

text \<open>The value of an \<open>int\<close> that received a wider value: two's complement, 32 bits.\<close>

definition int32 :: "int \<Rightarrow> int" where
  "int32 x = (x + 2 ^ 31) mod 2 ^ 32 - 2 ^ 31"

text \<open>
  C division truncates towards zero. The quotient of \<open>INT_MIN\<close> by \<open>-1\<close> does not
  fit: the machine division traps there. \<open>div_overflow\<close> is that case for the operator
  text \<open>/\<close>, and the loop of \<open>EvalOperand\<close> tests it before it divides.
\<close>

definition c_div :: "int \<Rightarrow> int \<Rightarrow> int" where
  "c_div l r = sgn l * sgn r * (\<bar>l\<bar> div \<bar>r\<bar>)"

definition div_overflow :: "string \<Rightarrow> int \<Rightarrow> int \<Rightarrow> bool" where
  "div_overflow opn l r = (opn = ''/'' \<and> l = - (2 ^ 31) \<and> r = - 1)"

text \<open>
  The operator functions. Sums, differences and products wrap at 32 bits; a shift
  takes its count modulo 32, and the right shift of the signed value is arithmetic.
\<close>

definition c_bool :: "bool \<Rightarrow> int" where
  "c_bool b = (if b then 1 else 0)"

definition op_mul :: "int \<Rightarrow> int \<Rightarrow> int" where "op_mul l r = int32 (l * r)"
definition op_div :: "int \<Rightarrow> int \<Rightarrow> int" where
  "op_div l r = (if r \<noteq> 0 then c_div l r else UNDEF)"
definition op_add :: "int \<Rightarrow> int \<Rightarrow> int" where "op_add l r = int32 (l + r)"
definition op_sub :: "int \<Rightarrow> int \<Rightarrow> int" where "op_sub l r = int32 (l - r)"
definition op_asl :: "int \<Rightarrow> int \<Rightarrow> int" where
  "op_asl l r = int32 (push_bit (nat (r AND 31)) l)"
definition op_lsr :: "int \<Rightarrow> int \<Rightarrow> int" where
  "op_lsr l r = drop_bit (nat (r AND 31)) l"
definition op_cle :: "int \<Rightarrow> int \<Rightarrow> int" where "op_cle l r = c_bool (l \<le> r)"
definition op_clt :: "int \<Rightarrow> int \<Rightarrow> int" where "op_clt l r = c_bool (l < r)"
definition op_cge :: "int \<Rightarrow> int \<Rightarrow> int" where "op_cge l r = c_bool (l \<ge> r)"
definition op_cgt :: "int \<Rightarrow> int \<Rightarrow> int" where "op_cgt l r = c_bool (l > r)"
definition op_ceq :: "int \<Rightarrow> int \<Rightarrow> int" where "op_ceq l r = c_bool (l = r)"
definition op_cne :: "int \<Rightarrow> int \<Rightarrow> int" where "op_cne l r = c_bool (l \<noteq> r)"
definition op_xor :: "int \<Rightarrow> int \<Rightarrow> int" where "op_xor l r = l XOR r"
definition op_and :: "int \<Rightarrow> int \<Rightarrow> int" where
  "op_and l r = c_bool (l \<noteq> 0 \<and> r \<noteq> 0)"
definition op_bnd :: "int \<Rightarrow> int \<Rightarrow> int" where "op_bnd l r = l AND r"
definition op_lor :: "int \<Rightarrow> int \<Rightarrow> int" where
  "op_lor l r = c_bool (l \<noteq> 0 \<or> r \<noteq> 0)"
definition op_bor :: "int \<Rightarrow> int \<Rightarrow> int" where "op_bor l r = l OR r"

text \<open>The table \<open>binop\<close>: operator text, priority, function, in the source's order.\<close>

definition binop :: "(string \<times> int \<times> (int \<Rightarrow> int \<Rightarrow> int)) list" where
  "binop =
    [(''*'', 11, op_mul), (''/'', 11, op_div), (''+'', 10, op_add), (''-'', 10, op_sub),
     (''<<'', 9, op_asl), (''>>'', 9, op_lsr), (''<='', 8, op_cle), (''<'', 8, op_clt),
     (''>='', 8, op_cge), (''>'', 8, op_cgt), (''=='', 7, op_ceq), (''!='', 7, op_cne),
     (''^'', 5, op_xor), (''&&'', 3, op_and), (''&'', 6, op_bnd), (''||'', 2, op_lor),
     (''|'', 4, op_bor)]"

text \<open>
  The step of \<open>EvalOperand\<close> that combines the left operand \<open>r\<close> with the right
  operand \<open>w\<close>: \<open>if (w == UNDEF) r = UNDEF; else r = binop[i].foo(r,w);\<close>
\<close>

definition apply_binop :: "(int \<Rightarrow> int \<Rightarrow> int) \<Rightarrow> int \<Rightarrow> int \<Rightarrow> int" where
  "apply_binop foo r w = (if w = UNDEF then UNDEF else foo r w)"

subsection \<open>Symbols\<close>

definition StrCmp :: "asm \<Rightarrow> string \<Rightarrow> string \<Rightarrow> bool" where
  "StrCmp s a b = (if IgnoreCase s \<noteq> 0 then StrCaseCmp a b = 0 else a = b)"

text \<open>
  \<open>GetSymbol\<close>: a leading dot is prefixed with the current scope, if there is one;
  a symbol starts with a letter or an underscore. Returns the rest and the symbol.
\<close>

definition GetSymbol :: "asm \<Rightarrow> string \<Rightarrow> string \<times> string" where
  "GetSymbol s p =
     (let (pre, p1) =
            (if p \<noteq> [] \<and> hd p = CHR ''.'' \<and> Scope s \<noteq> [] then (Scope s @ ''.'', tl p)
             else ([], p))
      in if p1 \<noteq> [] \<and> (hd p1 = CHR ''_'' \<or> isalpha (hd p1))
         then (dropWhile isym p1, pre @ takeWhile isym p1)
         else (p1, pre))"

text \<open>
  \<open>AddLabel\<close>: a new symbol with the address \<open>UNDEF\<close>. The reference lists, which
  only feed the listing, are not modelled.
\<close>

definition AddLabel :: "string \<Rightarrow> asm \<Rightarrow> error + asm" where
  "AddLabel p s =
     (if length (lab s) > MAXLAB - 2 then Inl TooManyLabels
      else if \<exists>row \<in> set (take (DimOp s) Mat). StrCaseCmp p (Mne row) = 0
      then Inl (ReservedWord p)
      else if \<exists>k \<in> set PseudoTab. StrCaseCmp p k = 0 then Inl (ReservedWord p)
      else Inr (s\<lparr>lab := lab s @ [\<lparr>Name = p, Address = UNDEF, Bytes = 0\<rparr>]\<rparr>))"

definition EvalSymValue :: "string \<Rightarrow> asm \<Rightarrow> error + (string \<times> int \<times> asm)" where
  "EvalSymValue p s =
     (let (rest, Sym) = GetSymbol s p
      in case List.find (\<lambda>l. StrCmp s Sym (Name l)) (lab s) of
           Some l \<Rightarrow> Inr (rest, Address l, s)
         | None \<Rightarrow> ebind (AddLabel Sym s) (\<lambda>s'. Inr (rest, UNDEF, s')))"

definition EvalSymBytes :: "string \<Rightarrow> asm \<Rightarrow> error + (string \<times> int \<times> asm)" where
  "EvalSymBytes p s =
     (let (rest, Sym) = GetSymbol s p
      in case List.find (\<lambda>l. StrCmp s Sym (Name l)) (lab s) of
           Some l \<Rightarrow> Inr (rest, Bytes l, s)
         | None \<Rightarrow> ebind (AddLabel Sym s) (\<lambda>s'. Inr (rest, UNDEF, s')))"

subsection \<open>Literals\<close>

text \<open>A \<open>char\<close> read as an \<open>int\<close>: the type is signed, bytes from 0x80 are negative.\<close>

definition schar :: "char \<Rightarrow> int" where
  "schar c = (if (of_char c :: int) < 128 then of_char c else of_char c - 256)"

definition digitval :: "char \<Rightarrow> int" where
  "digitval c =
     (case map_of (zip ''0123456789abcdefABCDEF''
                    [0, 1, 2, 3, 4, 5, 6, 7, 8, 9, 10, 11, 12, 13, 14, 15, 10, 11, 12, 13, 14, 15]) c of
        Some d \<Rightarrow> d | None \<Rightarrow> 0)"

text \<open>
  \<open>strtoll(p, &EndPtr, 16)\<close>: white space, an optional sign, an optional \<open>0x\<close>, the
  hexadecimal digits; without a digit nothing is consumed. The result saturates.
\<close>

definition strtoll16 :: "string \<Rightarrow> int \<times> string" where
  "strtoll16 p =
     (let q = dropWhile isspace p;
          neg = (q \<noteq> [] \<and> hd q = CHR ''-'');
          q1 = (if q \<noteq> [] \<and> (hd q = CHR ''-'' \<or> hd q = CHR ''+'') then tl q else q);
          q2 = (if length q1 > 2 \<and> hd q1 = CHR ''0'' \<and> (q1 ! 1 = CHR ''x'' \<or> q1 ! 1 = CHR ''X'')
                   \<and> isxdigit (q1 ! 2)
                then drop 2 q1 else q1);
          ds = takeWhile isxdigit q2;
          n = foldl (\<lambda>a d. 16 * a + digitval d) 0 ds
      in if ds = [] then (0, p)
         else (if neg then max (- (2 ^ 63)) (- n) else min (2 ^ 63 - 1) n, dropWhile isxdigit q2))"

definition EvalHexValue :: "string \<Rightarrow> string \<times> int" where
  "EvalHexValue p = (let (lol, EndPtr) = strtoll16 p in (EndPtr, int32 (lol AND 0xffffffff)))"

text \<open>
  \<open>atoi\<close> at a position that starts with a digit: \<open>strtol\<close>, which saturates at
  \<open>LONG_MAX\<close>, then the conversion to \<open>int\<close>.
\<close>

definition atoi :: "string \<Rightarrow> int" where
  "atoi p = int32 (min (2 ^ 63 - 1) (foldl (\<lambda>a d. 10 * a + digitval d) 0 (takeWhile isdigit p)))"

definition EvalDecValue :: "string \<Rightarrow> error + (string \<times> int)" where
  "EvalDecValue p =
     (let i = length (takeWhile isxdigit (take 5 p))
      in if chr_at p i = CHR ''H'' \<or> chr_at p i = CHR ''h''
         then (let (q, v) = EvalHexValue p in Inr (drop 1 q, v))
         else (let q = dropWhile isdigit p
               in if \<not> isalpha (chr_at q 0) then Inr (q, atoi p) else Inl DecimalConstant))"

text \<open>
  A character constant. Reading past the terminating NUL of the line is undefined
  behaviour in C and gives \<open>Unmodelled\<close>.
\<close>

definition EvalCharValue :: "string \<Rightarrow> error + (string \<times> int)" where
  "EvalCharValue p =
     (case p of
        [] \<Rightarrow> Inl Unmodelled
      | c # q \<Rightarrow>
          (let (v, q') =
                 (if c = CHR 0x5C then
                    (let e = chr_at q 0
                     in (if e = CHR ''r'' then 13 else if e = CHR ''n'' then 10
                         else if e = CHR ''a'' then 7 else if e = CHR ''e'' then 27
                         else if e = CHR ''0'' then 0 else schar e,
                         drop 1 q))
                  else (schar c, q))
           in if chr_at q' 0 \<noteq> CHR 0x27 \<and> q' \<noteq> [] then Inl CharDelimiter
              else Inr (drop 1 q', v)))"

fun MultiCharLoop :: "nat \<Rightarrow> string \<Rightarrow> int \<Rightarrow> error + (string \<times> int)" where
  "MultiCharLoop 0 p v = Inr (p, v)"
| "MultiCharLoop (Suc n) [] v = Inl Unmodelled"
| "MultiCharLoop (Suc n) (c # q) v =
     (if c = CHR 0x22 then Inr (c # q, v)
      else MultiCharLoop n q (int32 (push_bit 8 v) OR schar c))"

definition EvalMultiCharValue :: "string \<Rightarrow> error + (string \<times> int)" where
  "EvalMultiCharValue p =
     ebind (MultiCharLoop 4 p 0)
       (\<lambda>(q, v). Inr (if chr_at q 0 = CHR 0x22 then drop 1 q else q, v))"

fun EvalBinValue :: "string \<Rightarrow> int \<Rightarrow> string \<times> int" where
  "EvalBinValue [] r = ([], r)"
| "EvalBinValue (c # q) r =
     (if c = CHR ''1'' \<or> c = CHR ''*'' then EvalBinValue q (int32 (push_bit 1 r) + 1)
      else if c = CHR ''0'' \<or> c = CHR ''.'' then EvalBinValue q (int32 (push_bit 1 r))
      else if c = CHR '' '' then EvalBinValue q r
      else (c # q, r))"

subsection \<open>EvalOperand\<close>

text \<open>
  \<open>EvalOperand(p, &v, prio)\<close> returns the rest of the text, the value and the state.
  The source leaves \<open>*v\<close> untouched when the text starts with a comma; the value on
  entry is therefore an argument (\<open>None\<close> for an uninitialised variable, which is the
  case of \<open>w\<close> at the first right operand) and the value on exit has the same type.

  The C function recurses on a strictly shorter text. The embedding recurses on a
  bound: \<open>EvalOperandF\<close> is the function body, \<open>BinLoop\<close> its \<open>while\<close> loop over the
  binary operators, and \<open>EvalOperand\<close> supplies a bound that the length of the text
  cannot exhaust.
\<close>

definition unary_chars :: string where
  "unary_chars = ''[(+-!~<>*$%?'' @ [CHR 0x27, CHR 0x22]"

definition binary_chars :: string where
  "binary_chars = ''*/+-<>=!&^|''"

definition is_prefix :: "string \<Rightarrow> string \<Rightarrow> bool" where
  "is_prefix a p = (take (length a) p = a)"

definition ret_codestyle :: "asm \<Rightarrow> string \<Rightarrow> string" where
  "ret_codestyle s p = (if CodeStyle s = 1 \<and> chr_at p 0 = CHR '' '' then [] else p)"

text \<open>
  The unary operators: \<open>op_prefix\<close> is what \<open>op_low\<close>, \<open>op_hig\<close>, \<open>op_plu\<close>,
  \<open>op_min\<close>, \<open>op_lno\<close> and \<open>op_bno\<close> do with the operand they evaluated at
  priority 12, \<open>op_par\<close> closes a bracket, \<open>op_const\<close> covers the entries of the
  table \<open>unaop\<close> that do not recurse.
\<close>

type_synonym eval_result = "error + (string \<times> int option \<times> asm)"

definition op_prefix :: "char \<Rightarrow> eval_result \<Rightarrow> error + (string \<times> int \<times> asm)" where
  "op_prefix c res =
     (case res of
        Inl e \<Rightarrow> Inl e
      | Inr (q, None, s1) \<Rightarrow> Inl Unmodelled
      | Inr (q, Some r, s1) \<Rightarrow>
          if c = CHR ''<'' then Inr (q, r, s1\<lparr>ForcedMode := - 1\<rparr>)
          else if c = CHR ''>'' then Inr (q, r, s1\<lparr>ForcedMode := 1\<rparr>)
          else if c = CHR ''+'' then Inr (q, r, s1)
          else if c = CHR ''-'' then Inr (q, int32 (- r), s1)
          else if c = CHR ''!'' then Inr (q, c_bool (r = 0), s1)
          else Inr (q, NOT r, s1))"

definition op_par :: "char \<Rightarrow> eval_result \<Rightarrow> error + (string \<times> int \<times> asm)" where
  "op_par c res =
     (case res of
        Inl e \<Rightarrow> Inl e
      | Inr (q, None, s1) \<Rightarrow> Inl Unmodelled
      | Inr (q, Some r, s1) \<Rightarrow>
          (let cl = (if c = CHR ''['' then CHR '']'' else CHR '')'')
           in case NeedChar q cl of
                None \<Rightarrow> Inl (MissingClosing cl)
              | Some q1 \<Rightarrow> Inr (tl q1, r, s1)))"

definition op_const :: "char \<Rightarrow> string \<Rightarrow> asm \<Rightarrow> error + (string \<times> int \<times> asm)" where
  "op_const c p s =
     (if c = CHR ''*'' then Inr (tl p, pc s, s)
      else if c = CHR ''$'' then (let (q, r) = EvalHexValue (tl p) in Inr (q, r, s))
      else if c = CHR 0x27 then
        (case EvalCharValue (tl p) of Inl e \<Rightarrow> Inl e | Inr (q, r) \<Rightarrow> Inr (q, r, s))
      else if c = CHR 0x22 then
        (case EvalMultiCharValue (tl p) of Inl e \<Rightarrow> Inl e | Inr (q, r) \<Rightarrow> Inr (q, r, s))
      else if c = CHR ''%'' then (let (q, r) = EvalBinValue (tl p) 0 in Inr (q, r, s))
      else EvalSymBytes (tl p) s)"

definition operand_leaf :: "char \<Rightarrow> string \<Rightarrow> asm \<Rightarrow> error + (string \<times> int \<times> asm)" where
  "operand_leaf c p s =
     (if isdigit c then
        (case EvalDecValue p of Inl e \<Rightarrow> Inl e | Inr (q, r) \<Rightarrow> Inr (q, r, s))
      else if isym c then EvalSymValue p s
      else Inl IllegalOperand)"

definition find_binop :: "string \<Rightarrow> (string \<times> int \<times> (int \<Rightarrow> int \<Rightarrow> int)) option" where
  "find_binop p = List.find (\<lambda>(opn, pr, foo). is_prefix opn p) binop"

fun EvalOperandF :: "nat \<Rightarrow> string \<Rightarrow> int option \<Rightarrow> int \<Rightarrow> asm \<Rightarrow> eval_result"
  and BinLoop :: "nat \<Rightarrow> string \<Rightarrow> int \<Rightarrow> int option \<Rightarrow> int \<Rightarrow> asm \<Rightarrow> eval_result"
where
  "EvalOperandF 0 p v prio s = Inl OutOfFuel"
| "EvalOperandF (Suc n) p v prio s =
     (let p1 = SkipSpace p; c = chr_at p1 0
      in if c = CHR '','' then Inr (p1, v, s)
         else
           (case (if p1 \<noteq> [] \<and> c \<in> set unary_chars then
                    (if c \<in> set ''<>+-!~'' then op_prefix c (EvalOperandF n (tl p1) (Some UNDEF) 12 s)
                     else if c \<in> set ''[('' then op_par c (EvalOperandF n (tl p1) (Some UNDEF) 0 s)
                     else op_const c p1 s)
                  else operand_leaf c p1 s) of
              Inl e \<Rightarrow> Inl e
            | Inr (q, r, s1) \<Rightarrow>
                if CodeStyle s1 = 1 \<and> chr_at q 0 = CHR '' '' then Inr ([], Some r, s1)
                else BinLoop n (SkipSpace q) r None prio s1))"
| "BinLoop 0 p r w prio s = Inl OutOfFuel"
| "BinLoop (Suc n) p r w prio s =
     (if p \<noteq> [] \<and> hd p \<in> set binary_chars then
        (case find_binop p of
           None \<Rightarrow> Inl OperatorExpected
         | Some (opn, pr, foo) \<Rightarrow>
             if pr \<le> prio then Inr (ret_codestyle s p, Some r, s)
             else
               (case EvalOperandF n (drop (length opn) p) w pr s of
                  Inl e \<Rightarrow> Inl e
                | Inr (q, None, s1) \<Rightarrow> Inl Unmodelled
                | Inr (q, Some wv, s1) \<Rightarrow>
                    if div_overflow opn r wv then Inl Unmodelled
                    else BinLoop n q (apply_binop foo r wv) (Some wv) prio s1))
      else Inr (ret_codestyle s p, Some r, s))"

definition EvalOperand :: "string \<Rightarrow> int option \<Rightarrow> int \<Rightarrow> asm
                            \<Rightarrow> error + (string \<times> int \<times> asm)" where
  "EvalOperand p v prio s =
     (case EvalOperandF (3 * length p + 3) p v prio s of
        Inl e \<Rightarrow> Inl e
      | Inr (q, None, s1) \<Rightarrow> Inl Unmodelled
      | Inr (q, Some r, s1) \<Rightarrow> Inr (q, r, s1))"

subsection \<open>Conditional assembly\<close>

definition CheckSkip :: "asm \<Rightarrow> asm" where
  "CheckSkip s =
     (let sl = SkipLine s
      in s\<lparr>Skipping := fold (\<lambda>i a. a OR sl (int i)) [1..<nat (IfLevel s + 1)] 0\<rparr>)"

text \<open>
  \<open>CheckCondition\<close> returns \<open>r\<close> and the state. The local \<open>v\<close> is uninitialised
  when the expression is evaluated. \<open>p + 6\<close>, \<open>p + 7\<close> and \<open>p + 3\<close> skip the keyword
  and the character after it.
\<close>

definition CheckCondition :: "string \<Rightarrow> asm \<Rightarrow> error + (int \<times> asm)" where
  "CheckCondition p0 s =
     (let p = (if chr_at p0 0 = CHR ''#'' then tl p0 else p0)
      in if strcmpword p ''error'' = 0 \<and> Phase s = 1 then
           (let s1 = CheckSkip s
            in if Skipping s1 \<noteq> 0 then Inr (0, s1) else Inl (UserError (drop 6 p)))
         else
           (let Ifdef = (strcmpword p ''ifdef'' = 0);
                Ifndef = (strcmpword p ''ifndef'' = 0);
                Ifval = (strcmpword p ''if'' = 0)
            in ebind
                 (if Ifdef \<or> Ifndef \<or> Ifval then
                    (let s1 = s\<lparr>IfLevel := IfLevel s + 1\<rparr>
                     in if IfLevel s1 > 9 then Inl TooManyIfs
                        else
                          ebind (EvalOperand (drop (if Ifdef then 6 else if Ifndef then 7 else 3) p)
                                   None 0 s1)
                            (\<lambda>(q, v, s2).
                               Inr (1, CheckSkip (s2\<lparr>SkipLine := (SkipLine s2)(IfLevel s2 :=
                                      c_bool (if Ifdef then v = UNDEF
                                              else if Ifndef then v \<noteq> UNDEF
                                              else v = UNDEF \<or> v = 0))\<rparr>))))
                  else if strcmpword p ''else'' = 0 then
                    Inr (1, CheckSkip (s\<lparr>SkipLine := (SkipLine s)(IfLevel s :=
                                           c_bool (SkipLine s (IfLevel s) = 0))\<rparr>))
                  else Inr (0, s))
                 (\<lambda>(r, s3).
                    if strcmpword p ''endif'' = 0 then
                      (let s4 = s3\<lparr>IfLevel := IfLevel s3 - 1\<rparr>
                       in if IfLevel s4 < 0 then Inl EndifWithoutIf else Inr (1, CheckSkip s4))
                    else Inr (r, s3))))"

subsection \<open>Register lists and register names\<close>

definition PushList :: "(string \<times> int) list" where
  "PushList =
    [(''CC'', 0x01), (''A'', 0x02), (''B'', 0x04), (''D'', 0x06), (''DP'', 0x08),
     (''X'', 0x10), (''Y'', 0x20), (''S'', 0x40), (''U'', 0x40), (''PC'', 0x80)]"

text \<open>The inner \<open>for\<close> loop of \<open>ScanPushList\<close>: from index 9 down to 0.\<close>

definition push_match :: "string \<Rightarrow> (string \<times> int) option" where
  "push_match p = List.find (\<lambda>(Reg, Val). strcmpword p Reg = 0) (rev PushList)"

function PushLoop :: "string \<Rightarrow> int \<Rightarrow> error + int" where
  "PushLoop p v =
     (if p = [] then Inr v
      else
        (case push_match p of
           None \<Rightarrow> Inl OperandError
         | Some (Reg, Val) \<Rightarrow>
             (let q = SkipSpace (drop (length Reg) p)
              in if chr_at q 0 \<noteq> CHR '','' \<and> q \<noteq> [] then Inl OperandError
                 else PushLoop (SkipSpace (if chr_at q 0 = CHR '','' then tl q else q)) (v OR Val))))"
  by pat_completeness auto
termination
proof (relation "measure (\<lambda>(p, v). length p)", goal_cases)
  case 1
  show ?case by simp
next
  case (2 p v x2 Reg Val q)
  from 2(2,3) obtain i where "i < length (rev PushList)" "rev PushList ! i = (Reg, Val)"
    by (auto simp: push_match_def find_Some_iff)
  then have "(Reg, Val) \<in> set (rev PushList)"
    using nth_mem by metis
  then have "0 < length Reg"
    by (auto simp: PushList_def)
  with 2(1) have "length (drop (length Reg) p) < length p"
    by simp
  moreover have "length q \<le> length (drop (length Reg) p)"
    unfolding 2(4) SkipSpace_def by (rule length_dropWhile_le)
  moreover have "length (SkipSpace (if chr_at q 0 = CHR '','' then tl q else q))
                   \<le> length (if chr_at q 0 = CHR '','' then tl q else q)"
    unfolding SkipSpace_def by (rule length_dropWhile_le)
  moreover have "length (if chr_at q 0 = CHR '','' then tl q else q) \<le> length q"
    by simp
  ultimately show ?case by simp
qed

definition ScanPushList :: "string \<Rightarrow> error + int" where
  "ScanPushList p = (if strcmpword p ''ALL'' = 0 then Inr 0xff else PushLoop p 0)"

text \<open>\<open>ScanRegister\<close>: the register number and the text after it and a comma.\<close>

definition ScanRegister :: "asm \<Rightarrow> string \<Rightarrow> error + (string \<times> int)" where
  "ScanRegister s p =
     (case List.find (\<lambda>i. StrNCaseCmp (RegisterNames s ! i) p (length (RegisterNames s ! i)) = 0)
             (rev [0..<16]) of
        None \<Rightarrow> Inl UnknownRegister
      | Some i \<Rightarrow>
          (let q = SkipSpace (drop (length (RegisterNames s ! i)) p)
           in Inr (if chr_at q 0 = CHR '','' then tl q else q, int i)))"

definition TFMRegister :: "asm \<Rightarrow> string \<Rightarrow> error + (string \<times> int)" where
  "TFMRegister s p =
     (case List.find (\<lambda>i. chr_at (RegisterNames s ! i) 0 = toupper (chr_at p 0)) (rev [0..<5]) of
        None \<Rightarrow> Inl UnknownRegister
      | Some i \<Rightarrow> Inr (drop 1 p, int i))"

definition RegisterSize :: "mat_row \<Rightarrow> error + int" where
  "RegisterSize n =
     (if StrNCaseCmp (Mne n) ''LDMD'' 4 = 0 then Inr 1
      else if StrNCaseCmp (Mne n) ''CWAI'' 4 = 0 then Inr 1
      else
        (let r = chr_at (Mne n) (length (Mne n) - 1)
         in if r \<in> set ''ABCEF'' then Inr 1
            else if r \<in> set ''DXYW'' then Inr 2
            else if r \<in> set ''SU'' then Inr 2
            else if r = CHR ''Q'' then Inr 4
            else Inl IllegalRegisterName))"

subsection \<open>The post-byte of the indexed modes\<close>

definition PostIndex :: "int \<Rightarrow> string \<Rightarrow> error + int" where
  "PostIndex reg p =
     (let c = chr_at p 0
      in if reg \<ge> 0 then Inl OperandError
         else if c = CHR ''x'' \<or> c = CHR ''X'' then Inr 0x00
         else if c = CHR ''y'' \<or> c = CHR ''Y'' then Inr 0x20
         else if c = CHR ''u'' \<or> c = CHR ''U'' then Inr 0x40
         else if c = CHR ''s'' \<or> c = CHR ''S'' then Inr 0x60
         else Inl OperandError)"

definition PostIndexReg :: "int \<Rightarrow> string \<Rightarrow> error + int" where
  "PostIndexReg reg p =
     ebind (PostIndex reg p) (\<lambda>r. if drop 1 p \<noteq> [] then Inl OperandError else Inr r)"

definition PostIndexW :: "int \<Rightarrow> string \<Rightarrow> error + int" where
  "PostIndexW reg p =
     (if chr_at p 0 = CHR ''w'' \<or> chr_at p 0 = CHR ''W'' then Inr 0xf else PostIndex reg p)"

definition acc_suffix :: "char \<Rightarrow> int option" where
  "acc_suffix c =
     map_of [(CHR ''A'', 0x06), (CHR ''B'', 0x05), (CHR ''D'', 0x0b), (CHR ''E'', 0x07),
             (CHR ''F'', 0x0a), (CHR ''W'', 0x0e)] (toupper c)"

text \<open>
  \<open>SetPostByte(p, &v)\<close> returns the post-byte, the value left in \<open>*v\<close> and the state;
  it sets the operand length \<open>ql\<close>.
\<close>

definition SetPostByte :: "string \<Rightarrow> int \<Rightarrow> asm \<Rightarrow> error + (int \<times> int \<times> asm)" where
  "SetPostByte p0 v s =
     (let indirect = (chr_at p0 0 = CHR ''['' \<and> p0 \<noteq> [] \<and> last p0 = CHR '']'');
          ind = (if indirect then 0x10 else 0);
          p = (if indirect then butlast (tl p0) else p0);
          opl = length p
      in if acc_suffix (chr_at p 0) \<noteq> None \<and> chr_at p 1 = CHR '','' then
           ebind (PostIndexReg (- 1) (drop 2 p))
             (\<lambda>reg. Inr (0x80 OR reg OR ind OR the (acc_suffix (chr_at p 0)), v, s\<lparr>ql := 0\<rparr>))
         else if (opl > 4 \<and> StrNCaseCmp (drop (opl - 4) p) '',PCR'' 4 = 0)
                 \<or> (opl > 3 \<and> StrNCaseCmp (drop (opl - 3) p) '',PC'' 3 = 0) then
           ebind (EvalOperand p (Some 0) 0 s)
             (\<lambda>(q, off0, s1).
                let off = off0 - (pc s1 + 3)
                in if ForcedMode s1 < 0 \<or> (off \<ge> - 128 \<and> off < 128 \<and> ROM s1 (pc s1) \<noteq> 0x8d)
                   then Inr (0x8c OR ind, off, s1\<lparr>ql := 1\<rparr>)
                   else Inr (0x8d OR ind, off - 1, s1\<lparr>ql := 2\<rparr>))
         else
           ebind (if chr_at p 0 \<noteq> CHR '','' then EvalOperand p (Some 0) 0 s else Inr (p, 0, s))
             (\<lambda>(q, off, s1).
                if chr_at q 0 = CHR '','' \<and> off = 0 then
                  (let q1 = dropWhile (\<lambda>c. c = CHR ''-'') (tl q);
                       dec = length (takeWhile (\<lambda>c. c = CHR ''-'') (tl q));
                       inc = length (takeWhile (\<lambda>c. c = CHR ''+'') (drop 1 q1))
                   in ebind (PostIndexW (- 1) q1)
                        (\<lambda>reg.
                           ebind (if inc = 1 \<and> dec = 0 then Inr 0x00
                                  else if inc = 2 \<and> dec = 0 then Inr 0x01
                                  else if inc = 0 \<and> dec = 1 then Inr 0x02
                                  else if inc = 0 \<and> dec = 2 then Inr 0x03
                                  else if inc = 0 \<and> dec = 0 then Inr 0x04
                                  else Inl OperandError)
                             (\<lambda>amo.
                                if reg = 0xf then
                                  ebind (if amo = 4 then Inr 0x8f else if amo = 1 then Inr 0xcf
                                         else if amo = 3 then Inr 0xef else Inl OperandError)
                                    (\<lambda>w. Inr (if ind \<noteq> 0 then w + 1 else w, v, s1\<lparr>ql := 0\<rparr>))
                                else Inr (0x80 OR reg OR ind OR amo, v, s1\<lparr>ql := 0\<rparr>))))
                else if chr_at q 0 = CHR '','' then
                  ebind (PostIndexW (- 1) (tl q))
                    (\<lambda>reg.
                       if reg = 0xf then Inr (if ind \<noteq> 0 then 0xb0 else 0xaf, off, s1\<lparr>ql := 2\<rparr>)
                       else if ForcedMode s1 \<le> 0 \<and> off \<ge> - 16 \<and> off < 16 \<and> ind = 0 then
                         Inr (reg OR (off AND 0x1f), off, s1\<lparr>ql := 0\<rparr>)
                       else if ForcedMode s1 < 0 \<or> (off \<ge> - 128 \<and> off < 128) then
                         Inr (0x80 OR reg OR ind OR 0x08, off, s1\<lparr>ql := 1\<rparr>)
                       else Inr (0x80 OR reg OR ind OR 0x09, off, s1\<lparr>ql := 2\<rparr>))
                else Inl OperandError))"

subsection \<open>Instruction length lock and emission\<close>

definition SetInstructionLength :: "asm \<Rightarrow> error + asm" where
  "SetInstructionLength s =
     ebind (if oc s \<ge> 0 then
              (if oc s < 256 then Put (pc s) (oc s) s
               else ebind (Put (pc s) (drop_bit 8 (oc s)) s) (Put (pc s + 1) (oc s AND 0xff)))
            else Inr s)
       (\<lambda>s1.
          if pc s1 \<ge> 0 \<and> pc s1 < 0x10000 then
            (if ADL s1 (pc s1) \<noteq> 0 \<and> ADL s1 (pc s1) \<noteq> il s1 then Inl PhaseError
             else
               (let start = pc s1; len = il s1; adl = ADL s1
                in Inr (s1\<lparr>ADL := (\<lambda>a. if a = start then len
                                           else if start < a \<and> a < start + len then - 1
                                           else adl a)\<rparr>)))
          else Inr s1)"

definition Synchronize :: "asm \<Rightarrow> asm" where
  "Synchronize s =
     (let n = ADL s (pc s) - il s;
          s1 = s\<lparr>nops := n, il := ADL s (pc s)\<rparr>
      in if n \<noteq> 0 then s1\<lparr>LOCK := (LOCK s1)(pc s1 := 0)\<rparr> else s1)"

text \<open>\<open>PutSeq a bs\<close>: \<open>Put\<close> of the bytes \<open>bs\<close> at \<open>a\<close>, \<open>a + 1\<close>, ...\<close>

fun PutSeq :: "int \<Rightarrow> int list \<Rightarrow> asm \<Rightarrow> error + asm" where
  "PutSeq a [] s = Inr s"
| "PutSeq a (b # bs) s = ebind (Put a b s) (PutSeq (a + 1) bs)"

text \<open>
  The pass-2 block of \<open>GenerateCode\<close> after \<open>Synchronize\<close>: opcode, post-byte, operand
  and the NOPs. Returns \<open>ibi\<close>, the number of bytes put, and the state.
\<close>

definition EmitCode :: "int \<Rightarrow> asm \<Rightarrow> error + (int \<times> asm)" where
  "EmitCode v s =
     (if v = UNDEF \<and> ql s > 0 then Inl UndefinedLabel
      else
        ebind (if oc s > 255 then
                 ebind (PutSeq (pc s) [drop_bit 8 (oc s), oc s] s) (\<lambda>s1. Inr (2, s1))
               else ebind (Put (pc s) (oc s) s) (\<lambda>s1. Inr (1, s1)))
          (\<lambda>(i1, s1).
             ebind (if pb s1 \<ge> 0 then ebind (Put (pc s1 + i1) (pb s1) s1) (\<lambda>s2. Inr (i1 + 1, s2))
                    else Inr (i1, s1))
               (\<lambda>(i2, s2).
                  ebind (if ql s2 = 4 then
                           ebind (PutSeq (pc s2 + i2)
                                    [drop_bit 24 v, drop_bit 16 v, drop_bit 8 v, v] s2)
                             (\<lambda>s3. Inr (i2 + 4, s3))
                         else Inr (i2, s2))
                    (\<lambda>(i3, s3).
                       ebind (if ql s3 = 2 then
                                (if v > 0xffff \<or> v < - 32768 then Inl ValueRange
                                 else ebind (PutSeq (pc s3 + i3) [drop_bit 8 v, v] s3)
                                        (\<lambda>s4. Inr (i3 + 2, s4)))
                              else Inr (i3, s3))
                         (\<lambda>(i4, s4).
                            ebind (if ql s4 = 1 then
                                     (let v1 = (if v \<ge> 0xff00 \<and> v \<le> 0xffff then v AND 0xff else v);
                                          d = push_bit 8 (DP s4);
                                          v2 = (if v1 - d < 256 \<and> v1 - d \<ge> - 128 then v1 - d else v1)
                                      in if v2 > 255 \<or> v2 < - 128 then Inl ValueRange
                                         else ebind (Put (pc s4 + i4) v2 s4) (\<lambda>s5. Inr (i4 + 1, s5)))
                                   else Inr (i4, s4))
                              (\<lambda>(i5, s5).
                                 ebind (PutSeq (pc s5 + i5) (replicate (nat (nops s5)) 0x12) s5)
                                   (\<lambda>s6. Inr (i5 + int (nat (nops s5)), s6))))))))"

subsection \<open>GenerateCode\<close>

text \<open>
  The branch optimizer inside the relative mode (only with \<open>Optimize\<close>): \<open>v\<close> is the
  displacement computed for the length the mnemonic asked for.
\<close>

definition pass_allows :: "asm \<Rightarrow> (int \<Rightarrow> bool) \<Rightarrow> bool" where
  "pass_allows s P = (Phase s = 1 \<or> (Phase s = 2 \<and> P (ADL s (pc s))))"

definition BranchOptimize :: "int \<Rightarrow> asm \<Rightarrow> asm" where
  "BranchOptimize v s =
     (let s1 = (if v < - 128 \<and> oc s \<ge> 0x20 \<and> oc s < 0x30 \<and> pass_allows s (\<lambda>l. l \<ge> 3) then
                  (let t = (if oc s = 0x20 then s\<lparr>oc := 0x16, ol := 1\<rparr>
                            else s\<lparr>oc := oc s OR 0x1000, ol := 2\<rparr>)
                   in t\<lparr>ql := 2, il := ol t + 2\<rparr>)
                else s);
          s2 = (if v \<ge> - 128 \<and> v < 0 \<and> oc s1 > 0x1020 \<and> oc s1 < 0x1030
                   \<and> pass_allows s1 (\<lambda>l. l = 2)
                then s1\<lparr>oc := oc s1 AND 0xff, ol := 1, ql := 1, il := 2\<rparr> else s1)
      in if v \<ge> - 128 \<and> v < 0 \<and> oc s2 = 0x16 \<and> pass_allows s2 (\<lambda>l. l = 2)
         then s2\<lparr>oc := 0x20, ol := 1, ql := 1, il := 2\<rparr> else s2)"

definition oplen :: "int \<Rightarrow> int" where
  "oplen c = 1 + c_bool (c > 255)"

text \<open>The forward local label: the lowest recorded address above \<open>pc\<close>.\<close>

fun plus_label :: "asm \<Rightarrow> int \<Rightarrow> nat \<Rightarrow> int \<Rightarrow> int" where
  "plus_label s l 0 v = v"
| "plus_label s l (Suc i) v =
     (if plulab s l (int i) > pc s then plus_label s l i (plulab s l (int i)) else v)"

definition gen_relative :: "mat_row \<Rightarrow> string \<Rightarrow> asm \<Rightarrow> error + (int \<times> asm)" where
  "gen_relative n OpText s0 =
     (let s = s0\<lparr>ol := oplen (oc s0), ql := 1 + c_bool (chr_at (Mne n) 0 = CHR ''L'')\<rparr>;
          s = s\<lparr>il := ol s + ql s\<rparr>;
          l = int (length OpText)
      in ebind
           (if chr_at OpText 0 = CHR ''-'' then
              (if \<forall>c \<in> set OpText. c = CHR ''-'' then Inr (minlab s l, s)
               else ebind (EvalOperand OpText (Some UNDEF) 0 s)
                      (\<lambda>(rop, v, s1). if rop \<noteq> [] then Inl ExtraText else Inr (v, s1)))
            else if chr_at OpText 0 = CHR ''+'' \<and> (\<forall>c \<in> set OpText. c = CHR ''+'') then
              Inr (plus_label s l (nat (plucnt s l)) UNDEF, s)
            else ebind (EvalOperand OpText (Some UNDEF) 0 s) (\<lambda>(rop, v, s1). Inr (v, s1)))
           (\<lambda>(v0, s1).
              let v = (if v0 \<noteq> UNDEF then v0 - (pc s1 + il s1) else v0)
              in if Phase s1 = 2 \<and> v = UNDEF then Inl UndefinedBranch
                 else
                   (let s2 = (if Optimize s1 \<noteq> 0 then BranchOptimize v s1 else s1)
                    in if Phase s2 = 2 \<and> ql s2 = 1 \<and> (v < - 128 \<or> v > 127) then Inl (BranchRange v)
                       else Inr (v AND 0xffff, s2))))"

definition gen_register :: "mat_row \<Rightarrow> string \<Rightarrow> string \<Rightarrow> asm \<Rightarrow> error + (int \<times> asm)" where
  "gen_register n p OpText s0 =
     (let s = s0\<lparr>ol := oplen (oc s0), il := oplen (oc s0) + 1\<rparr>
      in if chr_at (Mne n) 0 = CHR ''P'' then
           ebind (ScanPushList p) (\<lambda>b. Inr (UNDEF, s\<lparr>pb := b\<rparr>))
         else if take 3 (Mne n) = ''TFM'' then
           ebind (TFMRegister s OpText)
             (\<lambda>(q, r1).
                let p1 = (if chr_at q 0 = CHR ''+'' \<or> chr_at q 0 = CHR ''-'' then chr_at q 0 else CHR 0x00);
                    q1 = (if p1 \<noteq> CHR 0x00 then tl q else q)
                in if chr_at q1 0 \<noteq> CHR '','' then Inl MissingComma
                   else
                     ebind (TFMRegister s (tl q1))
                       (\<lambda>(q2, r2).
                          let p2 = (if chr_at q2 0 = CHR ''+'' \<or> chr_at q2 0 = CHR ''-''
                                    then chr_at q2 0 else CHR 0x00);
                              s1 = s\<lparr>pb := push_bit 4 r1 OR r2\<rparr>
                          in if p1 = CHR ''+'' \<and> p2 = CHR ''+'' then Inr (UNDEF, s1\<lparr>oc := 0x1138\<rparr>)
                             else if p1 = CHR ''-'' \<and> p2 = CHR ''-'' then Inr (UNDEF, s1\<lparr>oc := 0x1139\<rparr>)
                             else if p1 = CHR ''+'' \<and> p2 = CHR 0x00 then Inr (UNDEF, s1\<lparr>oc := 0x113a\<rparr>)
                             else if p1 = CHR 0x00 \<and> p2 = CHR ''+'' then Inr (UNDEF, s1\<lparr>oc := 0x113b\<rparr>)
                             else Inl IllegalIncDec))
         else
           ebind (ScanRegister s OpText)
             (\<lambda>(q, r1).
                ebind (ScanRegister s q)
                  (\<lambda>(q2, r2).
                     if r1 \<noteq> 13 \<and> r2 \<noteq> 13 \<and> ((r1 < 8 \<and> r2 > 7) \<or> (r1 > 7 \<and> r2 < 8))
                     then Inl MixedRegisters
                     else Inr (UNDEF, s\<lparr>pb := push_bit 4 r1 OR r2\<rparr>))))"

definition gen_immediate :: "mat_row \<Rightarrow> string \<Rightarrow> asm \<Rightarrow> error + (int \<times> asm)" where
  "gen_immediate n OpText s0 =
     (let s = s0\<lparr>oc := Opc n AM_Immediate\<rparr>
      in if oc s < 0 then Inl IllegalInstruction
         else
           ebind (EvalOperand (drop 1 OpText) (Some UNDEF) 0 s)
             (\<lambda>(rop, v, s1).
                if rop \<noteq> [] then Inl ExtraText
                else
                  ebind (RegisterSize n)
                    (\<lambda>sz.
                       let q = (if sz = 4 \<and> oc s1 \<noteq> 0xcd then 2 else sz);
                           s2 = s1\<lparr>ol := oplen (oc s1), ql := q, il := oplen (oc s1) + q\<rparr>
                       in if Phase s2 = 2 \<and> v = UNDEF then Inl UndefinedImmediate
                          else if q = 1 \<and> Phase s2 = 2 \<and> (v < - 128 \<or> v > 255)
                          then Inl (ImmediateRange v)
                          else if q = 2 \<and> Phase s2 = 2 \<and> (v < - 32768 \<or> v > 0xffff)
                          then Inl (ImmediateRange v)
                          else Inr (v, s2))))"

text \<open>
  The bracketed operand. Without a comma the branch sets \<open>pb\<close>, \<open>ql\<close> and
  \<open>il = ol + 3\<close> and does not assign \<open>ol\<close>, which keeps the value that the instruction
  assembled before left in it.
\<close>

definition gen_indirect :: "mat_row \<Rightarrow> string \<Rightarrow> asm \<Rightarrow> error + (int \<times> asm)" where
  "gen_indirect n OpText s0 =
     (if last OpText \<noteq> CHR '']'' then Inl MissingBracket
      else
        (let s = s0\<lparr>oc := Opc n AM_Indexed\<rparr>
         in if oc s < 0 then Inl IllegalInstruction
            else if CHR '','' \<notin> set (drop 1 OpText) then
              ebind (EvalOperand (drop 1 OpText) (Some UNDEF) 0 s)
                (\<lambda>(q, v, s1). Inr (v, s1\<lparr>pb := 0x9f, ql := 2, il := ol s1 + 3\<rparr>))
            else
              ebind (SetPostByte OpText UNDEF s)
                (\<lambda>(b, v, s1).
                   Inr (v, s1\<lparr>pb := b OR 0x10, ol := oplen (oc s1),
                              il := oplen (oc s1) + 1 + ql s1\<rparr>))))"

definition bit_number :: "char \<Rightarrow> int" where
  "bit_number c = schar c - 48"

definition gen_bitop :: "mat_row \<Rightarrow> string \<Rightarrow> asm \<Rightarrow> error + (int \<times> asm)" where
  "gen_bitop n p s0 =
     (let s = s0\<lparr>oc := Opc n AM_Direct\<rparr>
      in if oc s < 0 then Inl IllegalInstruction
         else
           ebind (if StrNCaseCmp p ''CC.'' 3 = 0 then Inr (0x00, drop 3 p)
                  else if StrNCaseCmp p ''A.'' 2 = 0 then Inr (0x40, drop 2 p)
                  else if StrNCaseCmp p ''B.'' 2 = 0 then Inr (0x80, drop 2 p)
                  else Inl IllegalBit)
             (\<lambda>(b0, p1).
                let i = bit_number (chr_at p1 0);
                    p2 = dropWhile (\<lambda>c. c \<noteq> CHR '','') (drop 1 p1)
                in if i < 0 \<or> i > 7 then Inl IllegalBit
                   else if p2 = [] \<or> CHR ''.'' \<notin> set p2 then Inl IllegalBit
                   else
                     (let addr = rev (drop 1 (dropWhile (\<lambda>c. c \<noteq> CHR ''.'') (rev p2)));
                          q1 = rev (takeWhile (\<lambda>c. c \<noteq> CHR ''.'') (rev p2))
                      in ebind (EvalOperand (drop 1 addr) (Some UNDEF) 0 s)
                           (\<lambda>(rest, v, s1).
                              let j = bit_number (chr_at q1 0)
                              in if v \<noteq> UNDEF \<and> (v < 0 \<or> v > 255) then Inl ValueRange
                                 else if j < 0 \<or> j > 7 then Inl IllegalBit
                                 else Inr (v, s1\<lparr>pb := b0 OR i OR push_bit 3 j,
                                                  ol := 2, ql := 1, il := 4\<rparr>)))))"

definition gen_indexed :: "mat_row \<Rightarrow> int \<Rightarrow> string \<Rightarrow> asm \<Rightarrow> error + (int \<times> asm)" where
  "gen_indexed n XIM p s0 =
     (let s = s0\<lparr>oc := (if XIM \<noteq> 0 then XIM AND 0xefff else Opc n AM_Indexed)\<rparr>
      in if oc s < 0 then Inl IllegalInstruction
         else
           ebind (SetPostByte p UNDEF s)
             (\<lambda>(b, v, s1).
                let l = (if XIM \<noteq> 0 then 2 else oplen (oc s1))
                in Inr (v, s1\<lparr>pb := b, ol := l, il := l + 1 + ql s1\<rparr>)))"

text \<open>Direct or extended mode, and the JMP optimization.\<close>

definition gen_other :: "mat_row \<Rightarrow> int \<Rightarrow> string \<Rightarrow> asm \<Rightarrow> error + (int \<times> asm)" where
  "gen_other n XIM p s0 =
     ebind (EvalOperand p (Some UNDEF) 0 s0)
       (\<lambda>(rest, v0, s).
          let s1 = (if XIM \<noteq> 0 then
                      (if v0 > 255 then s\<lparr>ol := 2, oc := XIM, ql := 2, il := 4\<rparr>
                       else s\<lparr>ol := 2, oc := XIM AND 0xfff, ql := 1, il := 3\<rparr>)
                    else s)
          in ebind
               (if Phase s1 = 2 then
                  (if XIM \<noteq> 0 then
                     Inr (v0, s1\<lparr>oc := push_bit 8 (ROM s1 (pc s1)) + ROM s1 (pc s1 + 1),
                                 il := ADL s1 (pc s1), ql := ADL s1 (pc s1) - ol s1\<rparr>)
                   else
                     (let c = ROM s1 (pc s1);
                          l = 1 + c_bool (c = 0x10 \<or> c = 0x11);
                          c2 = (if l = 2 then push_bit 8 c OR ROM s1 (pc s1 + 1) else c);
                          s2 = s1\<lparr>oc := c2, ol := l, il := ADL s1 (pc s1), ql := ADL s1 (pc s1) - l\<rparr>
                      in Inr (if ForcedMode s2 < 0 \<or> ql s2 = 1 then v0 AND 0xff else v0, s2)))
                else
                  (let s2 = (if XIM = 0 then s1\<lparr>oc := Opc n AM_Extended\<rparr> else s1)
                   in if oc s2 \<ge> 0 then
                        (let s3 = s2\<lparr>ol := oplen (oc s2), ql := 2, il := oplen (oc s2) + 2\<rparr>;
                             qc = (if XIM \<noteq> 0 then oc s3 AND 0xfff else Opc n AM_Direct)
                         in if ForcedMode s3 \<le> 0 \<and> qc \<ge> 0
                               \<and> (ForcedMode s3 < 0 \<or> (v0 \<noteq> UNDEF \<and> drop_bit 8 v0 = DP s3))
                            then Inr (v0 AND 0xff, s3\<lparr>oc := qc, ql := 1, il := ol s3 + 1\<rparr>)
                            else Inr (v0, s3))
                      else Inl IllegalInstruction))
               (\<lambda>(v, s4).
                  if Optimize s4 \<noteq> 0 then
                    (let rd = v - pc s4 - 3
                     in if rd \<ge> - 128 \<and> rd < 0 \<and> Phase s4 = 1 \<and> oc s4 = 0x7e then
                          Inr (rd, s4\<lparr>oc := 0x20, ol := 1, ql := 1, il := 2\<rparr>)
                        else if rd \<ge> - 128 \<and> rd < 0 \<and> Phase s4 = 2 \<and> oc s4 = 0x20 then
                          Inr (rd, s4\<lparr>ol := 1, ql := 1, il := 2\<rparr>)
                        else Inr (v, s4))
                  else Inr (v, s4)))"

text \<open>The immediate-to-memory mnemonics (OIM, AIM, EIM, TIM): \<open>#value,\<close> first.\<close>

definition gen_xim :: "mat_row \<Rightarrow> string \<Rightarrow> asm \<Rightarrow> error + (int \<times> string \<times> asm)" where
  "gen_xim n p s =
     (if chr_at (Mne n) 1 = CHR ''I'' \<and> chr_at (Mne n) 2 = CHR ''M'' then
        (if chr_at p 0 \<noteq> CHR ''#'' then Inl ImmediateSyntax
         else
           ebind (EvalOperand (tl p) (Some UNDEF) 0 s)
             (\<lambda>(q, v, s1).
                let XIM = push_bit 8 (Opc n AM_Extended) OR (v AND 0xff)
                in if chr_at q 0 \<noteq> CHR '','' then Inl ImmediateSyntax
                   else Inr (XIM, tl q, s1\<lparr>ol := 2, oc := XIM\<rparr>)))
      else Inr (0, p, s))"

definition gen_mode :: "mat_row \<Rightarrow> int \<Rightarrow> string \<Rightarrow> string \<Rightarrow> asm \<Rightarrow> error + (int \<times> asm)" where
  "gen_mode n XIM p OpText s =
     (if Opc n AM_Inherent \<ge> 0 then
        Inr (UNDEF, s\<lparr>oc := Opc n AM_Inherent, ol := oplen (Opc n AM_Inherent),
                      il := oplen (Opc n AM_Inherent)\<rparr>)
      else if OpText = [] then Inl MissingOperand
      else if hd OpText = CHR 0x27 then Inl Apostrophe
      else if Opc n AM_Register \<ge> 0 then gen_register n p OpText (s\<lparr>oc := Opc n AM_Register\<rparr>)
      else if Opc n AM_Relative \<ge> 0 then gen_relative n OpText (s\<lparr>oc := Opc n AM_Relative\<rparr>)
      else if chr_at p 0 = CHR ''#'' then gen_immediate n OpText s
      else if hd OpText = CHR ''['' then gen_indirect n OpText s
      else if CHR '','' \<in> set p \<and> CHR ''.'' \<in> set p then gen_bitop n p s
      else if CHR '','' \<in> set p then gen_indexed n XIM p s
      else gen_other n XIM p (s\<lparr>oc := Opc n AM_Relative\<rparr>))"

text \<open>The end of \<open>GenerateCode\<close>: the length check and the program counter.\<close>

definition gen_advance :: "asm \<Rightarrow> asm" where
  "gen_advance s =
     (let s1 = (if il s < 1 \<or> il s > 5 then s\<lparr>ErrNum := ErrNum s + 1, il := 1\<rparr> else s)
      in if pc s1 + il s1 > 0xffff then
           (if Phase s1 > 1 then s1\<lparr>ErrNum := ErrNum s1 + 1\<rparr> else s1)
         else s1\<lparr>pc := pc s1 + il s1\<rparr>)"

text \<open>
  \<open>GenerateCode(OpText)\<close> for the mnemonic \<open>Mat[MneIndex]\<close>; that table row is the
  first argument here.
\<close>

definition GenerateCode :: "mat_row \<Rightarrow> string \<Rightarrow> asm \<Rightarrow> error + asm" where
  "GenerateCode n OpText s0 =
     (let s = s0\<lparr>pb := - 1, ql := 0\<rparr>; p = SkipSpace OpText
      in if pc s < 0 then Inl UndefinedPC
         else
           ebind (gen_xim n p s)
             (\<lambda>(XIM, p1, s1).
                ebind (gen_mode n XIM p1 OpText s1)
                  (\<lambda>(v, s2).
                     ebind (if Phase s2 = 1 then SetInstructionLength s2 else Inr s2)
                       (\<lambda>s3.
                          ebind (if Phase s3 = 2 then
                                   ebind (EmitCode v (Synchronize s3)) (\<lambda>(ibi, s4). Inr s4)
                                 else Inr s3)
                            (\<lambda>s4. Inr (gen_advance s4))))))"

subsection \<open>Output files: raw binary and Motorola S-records\<close>

text \<open>\<open>printf("%0wX", n)\<close>: upper-case hexadecimal, at least \<open>w\<close> digits.\<close>

definition hexdigit :: "nat \<Rightarrow> char" where
  "hexdigit n = ''0123456789ABCDEF'' ! (n mod 16)"

fun hexstr :: "nat \<Rightarrow> string" where
  "hexstr n = (if n < 16 then [hexdigit n] else hexstr (n div 16) @ [hexdigit n])"

definition hexX :: "nat \<Rightarrow> int \<Rightarrow> string" where
  "hexX w n =
     (let h = hexstr (nat (n mod 2 ^ 32)) in replicate (w - length h) (CHR ''0'') @ h)"

text \<open>
  One line of an S-record file. The record keeps the fields that \<open>WriteS19Line\<close>
  prints, in the order it prints them; \<open>S19Text\<close> is the text written to the file.
  \<open>Data\<close> is the pointer argument, read at the offsets \<open>0 .. PayloadSize - 1\<close>.
\<close>

record srec =
  RecordType :: string
  Count :: int
  Addr :: int
  Payload :: "int list"
  Check :: int

definition S19Checksum :: "int \<Rightarrow> int \<Rightarrow> (int \<Rightarrow> int) \<Rightarrow> int" where
  "S19Checksum PayloadSize address Data =
     fold (\<lambda>i c. c + Data (int i)) [0..<nat PayloadSize]
       (PayloadSize + 3 + (address AND 0xff) + drop_bit 8 address)"

definition WriteS19Line :: "string \<Rightarrow> int \<Rightarrow> int \<Rightarrow> (int \<Rightarrow> int) \<Rightarrow> srec" where
  "WriteS19Line rt PayloadSize address Data =
     \<lparr> RecordType = rt, Count = PayloadSize + 3, Addr = address,
       Payload = map (\<lambda>i. Data (int i)) [0..<nat PayloadSize],
       Check = NOT (S19Checksum PayloadSize address Data) AND 0xff \<rparr>"

definition S19Text :: "srec \<Rightarrow> string" where
  "S19Text r =
     RecordType r @ hexX 2 (Count r) @ hexX 4 (Addr r) @ concat (map (hexX 2) (Payload r))
       @ hexX 2 (Check r) @ [CHR 0x0D, CHR 0x0A]"

text \<open>
  The loop of \<open>WriteS19Format\<close> that writes the S1 records. \<open>BytesInThisLine\<close> is
  set once before the loop and is a constant \<open>b\<close> inside it. With \<open>b \<le> 0\<close> the C loop
  would never end; that case is the result \<open>None\<close>.
\<close>

function S1Loop :: "(int \<Rightarrow> int) \<Rightarrow> int \<Rightarrow> int \<Rightarrow> int \<Rightarrow> srec list option" where
  "S1Loop rom b UnwrittenBytes A =
     (if UnwrittenBytes > 0 then
        (if b > 0 then
           map_option (\<lambda>rs. WriteS19Line ''S1'' b A (\<lambda>k. rom (A + k)) # rs)
             (S1Loop rom b (UnwrittenBytes - b) (A + b))
         else None)
      else Some [])"
  by pat_completeness auto
termination
  by (relation "measure (\<lambda>(rom, b, u, a). nat u)") auto

definition S19Header :: string where
  "S19Header = ''Bit Shift Assembler''"

definition S19FileName :: "string \<Rightarrow> string" where
  "S19FileName f = (if CHR ''.'' \<in> set f then f else f @ ''.S19'')"

definition WriteS19Format :: "(int \<Rightarrow> int) \<Rightarrow> store_req \<Rightarrow> srec list option" where
  "WriteS19Format rom q =
     (let s0 = WriteS19Line ''S0'' (int (length S19Header)) 0
                 (\<lambda>k. of_char (chr_at S19Header (nat k)));
          UnwrittenBytes = SFL q;
          BytesInThisLine = (if UnwrittenBytes < 32 then UnwrittenBytes else 32)
      in case S1Loop rom BytesInThisLine UnwrittenBytes (SFA q) of
           None \<Rightarrow> None
         | Some s1 \<Rightarrow>
             Some ([s0] @ s1 @ [WriteS19Line ''S5'' 0 (int (length s1)) (\<lambda>_. 0)]
                   @ (if SFE q > - 1 then [WriteS19Line ''S9'' 0 (SFE q) (\<lambda>_. 0)] else [])))"

definition WriteBinaryFormat :: "(int \<Rightarrow> int) \<Rightarrow> store_req \<Rightarrow> int list" where
  "WriteBinaryFormat rom q =
     (if SFE q > - 1 then [drop_bit 8 (SFA q) AND 0xff, SFA q AND 0xff] else [])
     @ map (\<lambda>k. rom (SFA q + int k)) [0..<nat (SFL q)]"

text \<open>A written file: its name and its content (text for S-records, bytes else).\<close>

datatype content = Text string | Binary "int list"

definition WriteFile :: "(int \<Rightarrow> int) \<Rightarrow> store_req \<Rightarrow> (string \<times> content) option" where
  "WriteFile rom q =
     (if SFT q = SRECORD then
        map_option (\<lambda>rs. (S19FileName (SFF q), Text (concat (map S19Text rs))))
          (WriteS19Format rom q)
      else Some (SFF q, Binary (WriteBinaryFormat rom q)))"

text \<open>\<open>WriteBinaries\<close>: every registered request, in the order of registration.\<close>

definition WriteBinaries :: "asm \<Rightarrow> (string \<times> content) option list" where
  "WriteBinaries s = map (WriteFile (ROM s)) (Stores s)"

subsection \<open>Directives: operand text, ORG and STORE\<close>

text \<open>
  \<open>ExtractOpText\<close>: the operand without comment and trailing blanks; a leading
  \<open><\<close> or \<open>>\<close> sets \<open>ForcedMode\<close>. Returns the operand and the state.
\<close>

fun scan_operand :: "string \<Rightarrow> bool \<Rightarrow> bool \<Rightarrow> string" where
  "scan_operand [] inquo inapo = []"
| "scan_operand (c # cs) inquo inapo =
     (let inquo1 = (if c = CHR 0x22 \<and> \<not> inapo then \<not> inquo else inquo);
          inapo1 = (if c = CHR 0x27 \<and> \<not> inquo1 then \<not> inapo else inapo)
      in if c = CHR '';'' \<and> \<not> inquo1 \<and> \<not> inapo1 then []
         else c # scan_operand cs inquo1 inapo1)"

definition ExtractOpText :: "string \<Rightarrow> asm \<Rightarrow> string \<times> asm" where
  "ExtractOpText p0 s0 =
     (let s = s0\<lparr>ForcedMode := 0\<rparr>; p = SkipSpace p0
      in if p = [] then ([], s)
         else
           (let forced = (hd p = CHR ''<'' \<or> hd p = CHR ''>'');
                s1 = (if forced then s\<lparr>ForcedMode := (if hd p = CHR ''<'' then - 1 else 1)\<rparr> else s);
                p1 = (if forced then tl p else p)
            in if CodeStyle s1 = 1 then (takeWhile (\<lambda>c. c \<noteq> CHR '' '') p1, s1)
               else (rev (dropWhile isspace (rev (scan_operand p1 False False))), s1)))"

definition ExtractValue :: "string \<Rightarrow> int option \<Rightarrow> asm \<Rightarrow> error + (int \<times> asm)" where
  "ExtractValue p v s =
     (let (OpText, s1) = ExtractOpText p s
      in if OpText = [] then Inl EmptyOperand
         else ebind (EvalOperand OpText v 0 s1)
                (\<lambda>(r, x, s2). if r \<noteq> [] then Inl ExtraText else Inr (x, s2)))"

definition ps_org :: "string \<Rightarrow> asm \<Rightarrow> error + asm" where
  "ps_org p s = ebind (ExtractValue p (Some (pc s)) s) (\<lambda>(x, s1). Inr (s1\<lparr>pc := x\<rparr>))"

text \<open>\<open>StrMatch\<close>: does the text contain the word, ignoring case?\<close>

definition StrMatch :: "string \<Rightarrow> string \<Rightarrow> bool" where
  "StrMatch t m =
     (\<exists>j \<in> set [0..<Suc (length t - length m)].
        length m \<le> length t \<and> map toupper (take (length m) (drop j t)) = map toupper m)"

text \<open>
  \<open>ParseStoreData\<close>: registers a storage request, in pass 2 only. \<open>EndPtr\<close> stops at
  the closing quote of the file name, and the search for the comma of the format
  starts there.
\<close>

definition ParseStoreData :: "string \<Rightarrow> asm \<Rightarrow> error + asm" where
  "ParseStoreData p s =
     (if Phase s < 2 then Inr s
      else
        ebind (EvalOperand p None 0 s)
          (\<lambda>(q, Start, s1).
             if Start < 0 \<or> Start > 0xffff then Inl StoreSyntax
             else case NeedChar q (CHR '','') of
               None \<Rightarrow> Inl StoreSyntax
             | Some q1 \<Rightarrow>
                 ebind (EvalOperand (tl q1) None 0 s1)
                   (\<lambda>(q2, Len, s2).
                      if Len < 0 \<or> Len > 0x10000 then Inl StoreSyntax
                      else case NeedChar q2 (CHR '','') of
                        None \<Rightarrow> Inl StoreSyntax
                      | Some q3 \<Rightarrow>
                          (case NeedChar (tl q3) (CHR 0x22) of
                             None \<Rightarrow> Inl StoreSyntax
                           | Some q4 \<Rightarrow>
                               (let Filename = takeWhile (\<lambda>c. c \<noteq> CHR 0x22) (tl q4);
                                    EndPtr = dropWhile (\<lambda>c. c \<noteq> CHR 0x22) (tl q4)
                                in ebind
                                     (case NeedChar EndPtr (CHR '','') of
                                        None \<Rightarrow> Inr (BINARY, - 1, s2)
                                      | Some q5 \<Rightarrow>
                                          ebind (if StrMatch (tl q5) ''BIN'' then Inr BINARY
                                                 else if StrMatch (tl q5) ''SREC'' then Inr SRECORD
                                                 else if StrMatch (tl q5) ''S19'' then Inr SRECORD
                                                 else Inl StoreSyntax)
                                            (\<lambda>fmt.
                                               case NeedChar (tl q5) (CHR '','') of
                                                 None \<Rightarrow> Inr (fmt, - 1, s2)
                                               | Some q6 \<Rightarrow>
                                                   ebind (EvalOperand (tl q6) (Some (- 1)) 0 s2)
                                                     (\<lambda>(q7, Entry, s3).
                                                        if Entry < 0 \<or> Entry > 0xffff
                                                        then Inl StoreSyntax
                                                        else Inr (fmt, Entry, s3))))
                                     (\<lambda>(fmt, Entry, s3).
                                        if length (Stores s3) < SFMAX then
                                          Inr (s3\<lparr>Stores := Stores s3 @
                                                 [\<lparr>SFA = Start, SFL = Len, SFF = Filename,
                                                   SFE = Entry, SFT = fmt\<rparr>]\<rparr>)
                                        else Inl TooManyStores))))))"

subsection \<open>ParseLine\<close>

text \<open>
  \<open>ParseLine\<close> for the lines of this fragment: conditional assembly, comments, the
  anonymous labels, the directives ORG and STORE, the \<open>* = expr\<close> form and
  instructions. Named labels, macros and the other directives give \<open>Unmodelled\<close>.
  The listing output is not modelled.
\<close>

definition SkipHexCode :: "string \<Rightarrow> string" where
  "SkipHexCode p =
     (if length p > 20 \<and> isdigit (p ! 4) \<and> isspace (p ! 5) \<and> isxdigit (p ! 6) \<and> isxdigit (p ! 7)
         \<and> isxdigit (p ! 8) \<and> isxdigit (p ! 9) \<and> p ! 0 \<noteq> CHR '';''
      then drop 20 p else p)"

text \<open>
  The anonymous labels. The loop \<open>while (*cp++ == c && i < 10 && i < l) ++i\<close> leaves
  \<open>cp\<close> one character behind the last one it tested; when that was the terminating
  NUL, the text that follows is not part of the line (\<open>Unmodelled\<close>).
\<close>

definition local_labels :: "string \<Rightarrow> asm \<Rightarrow> error + (string \<times> asm)" where
  "local_labels cp0 s0 =
     ebind
       (if chr_at cp0 0 = CHR ''-'' then
          (let i = min 10 (length (takeWhile (\<lambda>c. c = CHR ''-'') cp0))
           in if length cp0 < Suc i then Inl Unmodelled
              else Inr (drop (Suc i) cp0, s0\<lparr>minlab := (minlab s0)(int i := pc s0)\<rparr>))
        else Inr (cp0, s0))
       (\<lambda>(cp1, s1).
          if chr_at cp1 0 = CHR ''+'' then
            (let i = min 10 (length (takeWhile (\<lambda>c. c = CHR ''+'') cp1));
                 k = plucnt s1 (int i)
             in if length cp1 < Suc i then Inl Unmodelled
                else if Phase s1 = 1 then
                  (if k + 1 > 200 - 2 then Inl TooManyLabels
                   else Inr (drop (Suc i) cp1,
                             s1\<lparr>plulab := (plulab s1)(int i := (plulab s1 (int i))(k := pc s1)),
                                plucnt := (plucnt s1)(int i := k + 1)\<rparr>))
                else Inr (drop (Suc i) cp1, s1))
          else Inr (cp1, s1))"

text \<open>
  \<open>CheckPseudo\<close>: \<open>Inl\<close> the result of the pseudo-op when the text starts with one
  (the source returns NULL), else \<open>Inr\<close> the text without its leading blanks.
\<close>

definition CheckPseudo :: "string \<Rightarrow> asm \<Rightarrow> (error + asm) + string" where
  "CheckPseudo cp s =
     (let p = SkipSpace cp
      in case List.find (\<lambda>k. strcmpword p k = 0) PseudoTab of
           None \<Rightarrow> Inr p
         | Some k \<Rightarrow>
             Inl (ebind (if k = ''ORG'' then ps_org (drop (length k) p) s
                         else if k = ''STORE'' then ParseStoreData (drop (length k) p) s
                         else Inl Unmodelled)
                    (\<lambda>s1. if pc s1 > 0x10000 then Inl PCOverflow else Inr s1)))"

text \<open>
  The part of \<open>ParseLine\<close> for a text that starts with a letter, a dot or an
  underscore: it assigns \<open>MneIndex\<close>. A macro definition, and a text that is not an
  instruction (a label or a macro call), are outside the fragment.
\<close>

definition find_mnemonic :: "string \<Rightarrow> asm \<Rightarrow> error + asm" where
  "find_mnemonic cp s =
     (let c = chr_at cp 0
      in if c = CHR ''.'' \<or> c = CHR ''_'' \<or> isalpha c then
           (if StrMatch cp ''MACRO'' then Inl Unmodelled
            else case IsInstruction s cp of
                   None \<Rightarrow> Inl Unmodelled
                 | Some n \<Rightarrow> Inr (s\<lparr>MneIndex := int n\<rparr>))
         else Inr s)"

text \<open>
  The end of \<open>ParseLine\<close>: the mnemonic is \<open>Mat[MneIndex]\<close>, where \<open>MneIndex\<close> is
  looked up only when it is negative; a text that does not start with a letter is
  assembled with the index that the previous line left. \<open>cp + strlen(Mne)\<close> must
  stay inside the text.
\<close>

definition assemble :: "string \<Rightarrow> asm \<Rightarrow> error + asm" where
  "assemble cp s0 =
     (let s = (if MneIndex s0 < 0 then
                 s0\<lparr>MneIndex := (case IsInstruction s0 cp of None \<Rightarrow> - 1 | Some n \<Rightarrow> int n)\<rparr>
               else s0)
      in if MneIndex s \<ge> 0 then
           (let row = Mat ! nat (MneIndex s)
            in if length cp < length (Mne row) then Inl Unmodelled
               else (let (OpText, s1) = ExtractOpText (drop (length (Mne row)) cp) s
                     in GenerateCode row OpText s1))
         else if cp = [] \<or> hd cp = CHR '';'' \<or> hd cp = CHR ''*'' then Inr s
         else Inl SyntaxError)"

definition ParseLine :: "string \<Rightarrow> asm \<Rightarrow> error + asm" where
  "ParseLine ln s0 =
     (let cp = SkipSpace (SkipHexCode ln)
      in ebind (CheckCondition cp (s0\<lparr>oc := - 1\<rparr>))
           (\<lambda>(r, s).
              if r \<noteq> 0 \<or> Skipping s \<noteq> 0 then Inr s
              else if take 2 cp = ''/*'' \<or> take 2 cp = [CHR 0x5C, CHR ''*''] then Inr (s\<lparr>CodeStyle := 1\<rparr>)
              else if cp = [] \<or> hd cp = CHR '';'' then Inr s
              else if hd cp = CHR ''*'' \<and> NeedChar (tl cp) (CHR ''='') = None then Inr s
              else
                ebind (local_labels cp s)
                  (\<lambda>(cp1, s1).
                     case CheckPseudo cp1 s1 of
                       Inl res \<Rightarrow> res
                     | Inr cp2 \<Rightarrow>
                         ebind (find_mnemonic cp2 s1)
                           (\<lambda>s2.
                              if ForcedEnd s2 \<noteq> 0 \<or> cp2 = [] \<or> hd cp2 = CHR '';'' then Inr s2
                              else if hd cp2 = CHR ''&'' then Inl Unmodelled
                              else if hd cp2 = CHR ''*'' then
                                (case NeedChar (tl cp2) (CHR ''='') of
                                   None \<Rightarrow> Inl SyntaxError
                                 | Some q \<Rightarrow> ps_org (tl q) s2)
                              else
                                (case CheckPseudo cp2 s2 of
                                   Inl res \<Rightarrow> res
                                 | Inr cp3 \<Rightarrow> assemble cp3 s2)))))"

subsection \<open>The pass driver and main\<close>

text \<open>
  The loop of \<open>Phase1\<close> and \<open>Phase2\<close> over the lines of one source file (no include
  files, no macro expansion). \<open>parse\<close> is \<open>ParseLine\<close>; the loop is stated for any
  line handler. \<open>cap\<close> is true in pass 2, where the loop returns as soon as the error
  count has reached \<open>ERRMAX\<close>; the flag of the result tells whether it returned there.
\<close>

fun PassLoop :: "(string \<Rightarrow> asm \<Rightarrow> error + asm) \<Rightarrow> bool \<Rightarrow> string list \<Rightarrow> asm
                   \<Rightarrow> error + (bool \<times> asm)" where
  "PassLoop parse cap [] s = Inr (False, s)"
| "PassLoop parse cap (l # ls) s =
     (case parse l s of
        Inl e \<Rightarrow> Inl e
      | Inr s1 \<Rightarrow>
          if cap \<and> ErrNum s1 \<ge> ERRMAX then Inr (True, s1)
          else if ForcedEnd s1 \<noteq> 0 then Inr (False, s1)
          else PassLoop parse cap ls s1)"

definition reset_minlab :: "asm \<Rightarrow> asm" where
  "reset_minlab s =
     (let m = minlab s in s\<lparr>minlab := (\<lambda>i. if 0 \<le> i \<and> i < 11 then UNDEF else m i)\<rparr>)"

definition Phase1 :: "(string \<Rightarrow> asm \<Rightarrow> error + asm) \<Rightarrow> string list \<Rightarrow> asm \<Rightarrow> error + asm" where
  "Phase1 parse lines s =
     ebind (PassLoop parse False lines (reset_minlab (s\<lparr>Phase := 1, ForcedEnd := 0\<rparr>)))
       (\<lambda>(stopped, s1). Inr s1)"

definition Phase2 :: "(string \<Rightarrow> asm \<Rightarrow> error + asm) \<Rightarrow> string list \<Rightarrow> asm
                        \<Rightarrow> error + (bool \<times> asm)" where
  "Phase2 parse lines s =
     (let s1 = reset_minlab (s\<lparr>Phase := 2, pc := - 1, ForcedEnd := 0, Scope := []\<rparr>)
      in if IfLevel s1 \<noteq> 0 then Inl (MissingEndif (IfLevel s1))
         else PassLoop parse True lines s1)"

definition ListUndefinedSymbols :: "asm \<Rightarrow> asm" where
  "ListUndefinedSymbols s =
     s\<lparr>ErrNum := ErrNum s + int (length (filter (\<lambda>l. Address l = UNDEF) (lab s)))\<rparr>"

text \<open>
  \<open>main\<close> after the command line: pass 1, pass 2, \<open>WriteBinaries\<close>, the undefined
  symbols. The result tells whether pass 2 stopped at the error cap, and gives the
  files written and the exit code.
\<close>

record run =
  stopped :: bool
  files :: "(string \<times> content) option list"
  exit_code :: int
  final :: asm

definition main :: "(string \<Rightarrow> asm \<Rightarrow> error + asm) \<Rightarrow> string list \<Rightarrow> asm \<Rightarrow> error + run" where
  "main parse lines s =
     ebind (Phase1 parse lines s)
       (\<lambda>s1. ebind (Phase2 parse lines s1)
          (\<lambda>(st, s2).
             Inr \<lparr> stopped = st, files = WriteBinaries s2,
                   exit_code = ErrNum (ListUndefinedSymbols s2),
                   final = ListUndefinedSymbols s2 \<rparr>))"

text \<open>
  A sequence of instructions, each given by its index in \<open>Mat\<close> and its operand
  text, which is what \<open>ParseLine\<close> hands to \<open>GenerateCode\<close> after \<open>IsInstruction\<close>
  and \<open>ExtractOpText\<close>; and the two passes over such a sequence from an origin.
\<close>

fun GenerateAll :: "(nat \<times> string) list \<Rightarrow> asm \<Rightarrow> error + asm" where
  "GenerateAll [] s = Inr s"
| "GenerateAll ((n, OpText) # is) s =
     ebind (GenerateCode (Mat ! n) OpText (s\<lparr>ForcedMode := 0\<rparr>)) (GenerateAll is)"

definition TwoPasses :: "int \<Rightarrow> (nat \<times> string) list \<Rightarrow> asm \<Rightarrow> error + asm" where
  "TwoPasses origin is s =
     ebind (GenerateAll is (s\<lparr>Phase := 1, pc := origin\<rparr>))
       (\<lambda>s1. GenerateAll is (s1\<lparr>Phase := 2, pc := origin\<rparr>))"

subsection \<open>Example inputs\<close>

text \<open>Any sequence of \<open>Put\<close> calls, given as address and value pairs.\<close>

definition PutAll :: "(int \<times> int) list \<Rightarrow> asm \<Rightarrow> error + asm" where
  "PutAll ws s = fold (\<lambda>(i, v) r. ebind r (Put i v)) ws (Inr s)"

text \<open>The value that an evaluation of an expression returned.\<close>

definition value_of :: "error + (string \<times> int \<times> asm) \<Rightarrow> error + int" where
  "value_of r = (case r of Inl e \<Rightarrow> Inl e | Inr (q, v, s) \<Rightarrow> Inr v)"

text \<open>A state in which address 0 holds 0x8E and is locked.\<close>

definition locked0 :: asm where
  "locked0 = asm0\<lparr>ROM := (\<lambda>a. if a = 0 then 0x8E else 0), LOCK := (\<lambda>a. if a = 0 then 1 else 0)\<rparr>"

text \<open>\<open>n\<close> nested conditions: \<open>n\<close> lines \<open>if 1\<close>, then \<open>n\<close> lines \<open>endif\<close>.\<close>

definition prog_nested :: "nat \<Rightarrow> string list" where
  "prog_nested n = replicate n '' if 1'' @ replicate n '' endif''"






section \<open>Properties\<close>

declare S1Loop.simps [simp del]
declare PushLoop.simps [simp del]

lemma ebind_simps [simp]:
  "ebind (Inl e) f = Inl e"
  "ebind (Inr x) f = f x"
  by (simp_all add: ebind_def)

subsection \<open>S-records\<close>













subsection \<open>The ROM image and its lock map\<close>

lemma Put_locked_same: "LOCK s i = 1 \<Longrightarrow> ROM s i = v AND 0xff \<Longrightarrow> Put i v s = Inr s"
proof -
  assume a: "LOCK s i = 1" "ROM s i = v AND 0xff"
  have "(ROM s)(i := v AND 0xff) = ROM s" "(LOCK s)(i := 1) = LOCK s"
    using a by (simp_all add: fun_upd_idem)
  then show ?thesis
    using a by (simp add: Put_def)
qed

lemma Put_locked_other: "LOCK s i \<noteq> 0 \<Longrightarrow> ROM s i \<noteq> v AND 0xff \<Longrightarrow> Put i v s = Inl (Overwrite i)"
  by (simp add: Put_def)

lemma Put_result: "Put i v s = Inr s' \<Longrightarrow> LOCK s' i = 1 \<and> ROM s' i = v AND 0xff"
  by (auto simp: Put_def Let_def split: if_splits)

lemma Put_keeps_locked:
  "Put j v s = Inr s' \<Longrightarrow> LOCK s i = 1 \<Longrightarrow> LOCK s' i = 1 \<and> ROM s' i = ROM s i"
  by (auto simp: Put_def Let_def split: if_splits)

lemma fold_Put_Inl: "fold (\<lambda>(i, v) r. ebind r (Put i v)) ws (Inl e) = Inl e"
  by (induction ws) auto

lemma PutAll_keeps_locked:
  "PutAll ws s = Inr s' \<Longrightarrow> LOCK s i = 1 \<Longrightarrow> LOCK s' i = 1 \<and> ROM s' i = ROM s i"
proof (induction ws arbitrary: s)
  case Nil
  then show ?case by (simp add: PutAll_def)
next
  case (Cons w ws)
  obtain j v where w: "w = (j, v)" by (cases w)
  show ?case
  proof (cases "Put j v s")
    case (Inl e)
    with Cons.prems(1) w show ?thesis
      by (simp add: PutAll_def fold_Put_Inl)
  next
    case (Inr s1)
    with Cons.prems(1) w have "PutAll ws s1 = Inr s'"
      by (simp add: PutAll_def)
    moreover from Put_keeps_locked [OF Inr Cons.prems(2)] have "LOCK s1 i = 1" "ROM s1 i = ROM s i"
      by simp_all
    ultimately show ?thesis
      using Cons.IH [of s1] by simp
  qed
qed

text \<open>
  C10 (amended). \<open>Put\<close> locks the byte it writes. On a locked address a \<open>Put\<close> of the
  value already there changes nothing, and a \<open>Put\<close> of another value ends the
  assembly; so no sequence of \<open>Put\<close> calls changes a locked byte or its lock. (The
  lock itself is not permanent: \<open>Synchronize\<close> clears it, see the counterexample.)
\<close>

theorem C10_put_respects_lock:
  assumes "LOCK s i = 1"
  shows "(ROM s i = v AND 0xff \<longrightarrow> Put i v s = Inr s)
       \<and> (ROM s i \<noteq> v AND 0xff \<longrightarrow> Put i v s = Inl (Overwrite i))
       \<and> (\<forall>s'. PutAll ws s = Inr s' \<longrightarrow> LOCK s' i = 1 \<and> ROM s' i = ROM s i)
       \<and> (\<forall>j s'. Put j v s = Inr s' \<longrightarrow> LOCK s' j = 1 \<and> ROM s' j = v AND 0xff)"
proof (intro conjI allI impI)
  assume "ROM s i = v AND 0xff"
  with assms show "Put i v s = Inr s" by (rule Put_locked_same)
next
  assume "ROM s i \<noteq> v AND 0xff"
  with assms show "Put i v s = Inl (Overwrite i)" by (simp add: Put_locked_other)
next
  fix s' assume "PutAll ws s = Inr s'"
  from PutAll_keeps_locked [OF this assms] show "LOCK s' i = 1" "ROM s' i = ROM s i" by simp_all
next
  fix j s' assume "Put j v s = Inr s'"
  from Put_result [OF this] show "LOCK s' j = 1" "ROM s' j = v AND 0xff" by simp_all
qed

theorem C10_put_respects_lock_witness:
  "LOCK locked0 0 = 1 \<and> Put 0 0x8E locked0 = Inr locked0 \<and> Put 0 0x12 locked0 = Inl (Overwrite 0)
   \<and> (case PutAll [(1, 0x12), (0, 0x18E)] locked0 of
         Inl e \<Rightarrow> False
       | Inr s' \<Rightarrow> LOCK s' 0 = 1 \<and> ROM s' 0 = 0x8E)"
proof -
  have l: "LOCK locked0 0 = 1" by (simp add: locked0_def asm0_def)
  have r: "ROM locked0 0 = 0x8E AND 0xff" "ROM locked0 0 \<noteq> 0x12 AND 0xff" "ROM locked0 0 = 0x8E"
    by (simp_all add: locked0_def asm0_def)
  obtain s' where p: "PutAll [(1, 0x12), (0, 0x18E)] locked0 = Inr s'"
    by (simp add: PutAll_def Put_def locked0_def asm0_def)
  from C10_put_respects_lock [OF l, of "0x8E" "[(1, 0x12), (0, 0x18E)]"] p r
  have "LOCK s' 0 = 1 \<and> ROM s' 0 = 0x8E" "Put 0 0x8E locked0 = Inr locked0"
    by simp_all
  moreover from C10_put_respects_lock [OF l, of "0x12" "[]"] r
  have "Put 0 0x12 locked0 = Inl (Overwrite 0)"
    by simp
  ultimately show ?thesis
    using l p by simp
qed

text \<open>
  C10 as stated fails. Pass 1 assembles \<open>LDX #1\<close> at address 0: \<open>Put\<close> writes the opcode
  0x8E and locks it, and the length 3 is recorded. When pass 2 assembles \<open>NOP\<close> at
  the same address (the other branch of a condition on a symbol defined later),
  \<open>Synchronize\<close> finds a shorter instruction, clears \<open>LOCK[pc]\<close>, and \<open>Put\<close> replaces
  the locked 0x8E by 0x12.
\<close>

theorem C10_counterexample:
  "(case GenerateAll [(93, ''#1'')] (asm0\<lparr>Phase := 1, pc := 0\<rparr>) of
      Inl e \<Rightarrow> False
    | Inr s1 \<Rightarrow>
        LOCK s1 0 = 1 \<and> ROM s1 0 = 0x8E \<and>
        (case GenerateAll [(13, [])] (s1\<lparr>Phase := 2, pc := 0\<rparr>) of
           Inl e \<Rightarrow> False
         | Inr s2 \<Rightarrow> ROM s2 0 = 0x12))"
  by code_simp

subsection \<open>Instruction encoding\<close>

text \<open>
  C2. The emitted bytes do not always fill the recorded length. \<open>LDY #1\<close>,
  \<open>LDA [$1234]\<close>, \<open>RTS\<close> from address 0: the bracketed operand without a comma
  computes \<open>il = ol + 3\<close> with the \<open>ol = 2\<close> left by \<open>LDY\<close>, so pass 1 records the
  length 5 at address 4. Pass 2 emits the four bytes A6 9F 12 34, no NOP, and
  advances by 5: address 8 is never written and \<open>RTS\<close> follows at 9.
\<close>

theorem C2_indirect_extended_slot:
  "(case TwoPasses 0 [(133, ''#1''), (86, ''[$1234]''), (49, [])] asm0 of
      Inl e \<Rightarrow> False
    | Inr s \<Rightarrow> ADL s 4 = 5 \<and> map (LOCK s) [4, 5, 6, 7, 8] = [1, 1, 1, 1, 0]
              \<and> map (ROM s) [4, 5, 6, 7, 8] = [0xA6, 0x9F, 0x12, 0x34, 0] \<and> ADL s 9 = 1)"
  by code_simp





subsection \<open>Expressions\<close>

text \<open>
  C3. \<open>UNDEF\<close> as left operand is not propagated: the evaluator tests only the right
  operand. With the forward reference \<open>FWD\<close>, \<open>FWD+1\<close> evaluates to 0xff0001 and the
  unary minus gives \<open>-FWD = -0xff0000\<close>; neither is \<open>UNDEF\<close>.
\<close>

lemma FWD_plus_1:
  "value_of (EvalOperand ''FWD+1'' (Some UNDEF) 0 (asm0\<lparr>Phase := 1\<rparr>)) = Inr 0xff0001"
  by code_simp

lemma minus_FWD:
  "value_of (EvalOperand ''-FWD'' (Some UNDEF) 0 (asm0\<lparr>Phase := 1\<rparr>)) = Inr (- 0xff0000)"
  by code_simp

lemma UNDEF_plus_1: "apply_binop op_add UNDEF 1 = 0xff0001"
  by (simp add: apply_binop_def op_add_def UNDEF_def int32_def)

text \<open>
  C3, the evaluation: the combining step on \<open>UNDEF + 1\<close>, and the two expressions in
  pass 1 with an empty symbol table.
\<close>

theorem C3_undef_left_operand:
  "apply_binop op_add UNDEF 1 = 0xff0001
   \<and> value_of (EvalOperand ''FWD+1'' (Some UNDEF) 0 (asm0\<lparr>Phase := 1\<rparr>)) = Inr 0xff0001
   \<and> value_of (EvalOperand ''-FWD'' (Some UNDEF) 0 (asm0\<lparr>Phase := 1\<rparr>)) = Inr (- 0xff0000)
   \<and> UNDEF = 0xff0000"
  using UNDEF_plus_1 FWD_plus_1 minus_FWD by (simp add: UNDEF_def)




subsection \<open>Register lists\<close>

lemma toupper_upper [simp]:
  "toupper CHR ''A'' = CHR ''A''" "toupper CHR ''B'' = CHR ''B''" "toupper CHR ''C'' = CHR ''C''"
  "toupper CHR ''D'' = CHR ''D''" "toupper CHR ''P'' = CHR ''P''" "toupper CHR ''S'' = CHR ''S''"
  "toupper CHR ''U'' = CHR ''U''" "toupper CHR ''X'' = CHR ''X''" "toupper CHR ''Y'' = CHR ''Y''"
  "toupper CHR ''L'' = CHR ''L''" "toupper CHR '','' = CHR '',''"
  by (simp_all add: toupper_def)

lemma isym_simps [simp]:
  "isym CHR ''P''" "isym CHR ''C''" "isym CHR ''L''" "\<not> isym CHR '',''" "\<not> isym (CHR 0x00)"
  by (simp_all add: isym_def isalnum_def isalpha_def isdigit_def)



















subsection \<open>Conditional assembly\<close>

lemma ten_levels:
  "(case main ParseLine (prog_nested 10) asm0 of Inl e \<Rightarrow> e = TooManyIfs | Inr r \<Rightarrow> False)"
  by code_simp

lemma nine_levels:
  "(case main ParseLine (prog_nested 9) asm0 of Inl e \<Rightarrow> False | Inr r \<Rightarrow> exit_code r = 0)"
  by code_simp

text \<open>
  C9. A program with ten nested conditions reaches the fatal branch: the tenth \<open>if\<close>
  raises \<open>IfLevel\<close> to 10, and the test \<open>IfLevel > 9\<close> ends the assembly. Nine nested
  conditions assemble without error.
\<close>

theorem C9_tenth_level_is_fatal:
  "(case main ParseLine (prog_nested 10) asm0 of Inl e \<Rightarrow> e = TooManyIfs | Inr r \<Rightarrow> False)
   \<and> (case main ParseLine (prog_nested 9) asm0 of Inl e \<Rightarrow> False | Inr r \<Rightarrow> exit_code r = 0)"
  using ten_levels nine_levels by blast

subsection \<open>The error cap and the output files\<close>






end
